theory Spec2Isabelle
  imports Complex_Main "HOL-Library.Word"
begin

unbundle bit_operations_syntax

section \<open>Buffers and JavaScript numbers\<close>

text \<open>
  A Node.js \<open>Buffer\<close> is a sequence of bytes. The fixed-width readers of \<open>Buffer\<close>
  throw a RangeError when the read does not fit into the buffer; \<open>slice\<close> clamps its
  bounds instead and never throws.
\<close>

type_synonym byte = "8 word"
type_synonym buffer = "byte list"

text \<open>The descriptor object built by \<open>CIPErrorParser.parse\<close>.\<close>

record cip_error =
  code :: int
  extendedCode :: int
  name :: string
  description :: string
  isRecoverable :: bool

text \<open>
  Every \<open>throw\<close> of the sources is a value of this type. The constructors carry what the
  thrown object carries; the messages of the sources are:
  \<^item> \<open>InvalidId n\<close>: "Invalid n ID: Must be an integer between 0 and 65535"
  \<^item> \<open>MissingIdentifier\<close>: "At least one of classId, instanceId, or attributeId must be provided"
  \<^item> \<open>UnsupportedDataType c\<close>: "Unsupported data type: 0x..." (\<open>encodeData\<close>)
  \<^item> \<open>UnsupportedCIPDataType c\<close>: "Unsupported CIP data type: 0x..." (\<open>decode\<close>)
  \<^item> \<open>ResponseNotBuffer\<close>: "Response must be a Buffer"
  \<^item> \<open>InvalidResponseLength n\<close>: "Invalid response length: n bytes"
  \<^item> \<open>ProtocolStatusError d raw\<close>: the descriptor \<open>d\<close> thrown with \<open>rawResponse\<close> attached
  \<^item> \<open>Decode_Error e raw\<close>: the error \<open>e\<close> of the decoder rethrown with \<open>rawData\<close> attached
  \<^item> \<open>NotPointToPoint\<close>: "Only point-to-point connections support secure data"
  \<^item> \<open>SessionNotActive\<close>: "Secure session not established"
  \<^item> \<open>SessionAlreadyActive\<close>: "Session already established"
  \<^item> \<open>InvalidSessionResponse\<close>: "Invalid session response"
  \<^item> \<open>SessionRegistrationFailed c\<close>: "Session registration failed (Code: 0x...)"
  \<^item> \<open>InvalidLength\<close>: "Invalid response length" (\<open>receiveWithValidation\<close>)
  \<^item> \<open>SessionHandleMismatch\<close>: "Session handle mismatch"
  \<^item> \<open>SecurityError\<close>: "MAC verification failed"
  \<^item> \<open>TransportError\<close>: a rejection of the transport's \<open>send\<close> or \<open>receive\<close>
  \<^item> \<open>ReferenceError x\<close>, \<open>TypeError\<close>, \<open>RangeError\<close>: the built-in errors of the runtime.
\<close>

datatype error =
    InvalidId string
  | MissingIdentifier
  | UnsupportedDataType nat
  | UnsupportedCIPDataType nat
  | ResponseNotBuffer
  | InvalidResponseLength nat
  | ProtocolStatusError cip_error string
  | Decode_Error error string
  | NotPointToPoint
  | SessionNotActive
  | SessionAlreadyActive
  | InvalidSessionResponse
  | SessionRegistrationFailed nat
  | InvalidLength
  | SessionHandleMismatch
  | SecurityError
  | TransportError
  | ReferenceError string
  | TypeError
  | RangeError

text \<open>\<open>buf.slice(start, end)\<close> for non-negative bounds.\<close>

definition slice :: "buffer \<Rightarrow> nat \<Rightarrow> nat \<Rightarrow> buffer" where
  "slice buf start end = take (end - start) (drop start buf)"

definition readUInt8 :: "buffer \<Rightarrow> nat \<Rightarrow> error + nat" where
  "readUInt8 buf off =
     (if off + 1 \<le> length buf then Inr (unat (buf ! off)) else Inl RangeError)"

definition readUInt16BE :: "buffer \<Rightarrow> nat \<Rightarrow> error + nat" where
  "readUInt16BE buf off =
     (if off + 2 \<le> length buf
      then Inr (unat (buf ! off) * 256 + unat (buf ! (off + 1)))
      else Inl RangeError)"

definition readUInt16LE :: "buffer \<Rightarrow> nat \<Rightarrow> error + nat" where
  "readUInt16LE buf off =
     (if off + 2 \<le> length buf
      then Inr (unat (buf ! off) + unat (buf ! (off + 1)) * 256)
      else Inl RangeError)"

definition readUInt32BE :: "buffer \<Rightarrow> nat \<Rightarrow> error + nat" where
  "readUInt32BE buf off =
     (if off + 4 \<le> length buf
      then Inr (unat (buf ! off) * 16777216 + unat (buf ! (off + 1)) * 65536
                + unat (buf ! (off + 2)) * 256 + unat (buf ! (off + 3)))
      else Inl RangeError)"

definition readUInt32LE :: "buffer \<Rightarrow> nat \<Rightarrow> error + nat" where
  "readUInt32LE buf off =
     (if off + 4 \<le> length buf
      then Inr (unat (buf ! off) + unat (buf ! (off + 1)) * 256
                + unat (buf ! (off + 2)) * 65536 + unat (buf ! (off + 3)) * 16777216)
      else Inl RangeError)"

text \<open>Two's complement reading of an unsigned value of \<open>w\<close> bits.\<close>

definition to_signed :: "nat \<Rightarrow> nat \<Rightarrow> int" where
  "to_signed w u = (if u < 2 ^ (w - 1) then int u else int u - 2 ^ w)"

definition map_result :: "('a \<Rightarrow> 'b) \<Rightarrow> error + 'a \<Rightarrow> error + 'b" where
  "map_result f r = (case r of Inl e \<Rightarrow> Inl e | Inr x \<Rightarrow> Inr (f x))"

definition readInt8 :: "buffer \<Rightarrow> nat \<Rightarrow> error + int" where
  "readInt8 buf off = map_result (to_signed 8) (readUInt8 buf off)"

definition readInt16BE :: "buffer \<Rightarrow> nat \<Rightarrow> error + int" where
  "readInt16BE buf off = map_result (to_signed 16) (readUInt16BE buf off)"

definition readInt16LE :: "buffer \<Rightarrow> nat \<Rightarrow> error + int" where
  "readInt16LE buf off = map_result (to_signed 16) (readUInt16LE buf off)"

definition readInt32BE :: "buffer \<Rightarrow> nat \<Rightarrow> error + int" where
  "readInt32BE buf off = map_result (to_signed 32) (readUInt32BE buf off)"

definition readInt32LE :: "buffer \<Rightarrow> nat \<Rightarrow> error + int" where
  "readInt32LE buf off = map_result (to_signed 32) (readUInt32LE buf off)"

text \<open>\<open>n.toString(16)\<close> and \<open>String(n)\<close> for an integer \<open>n\<close>.\<close>

definition digit_char :: "nat \<Rightarrow> char" where
  "digit_char d = (''0123456789abcdef'') ! d"

fun digits_of :: "nat \<Rightarrow> nat \<Rightarrow> string" where
  "digits_of base n =
     (if base < 2 \<or> n < base then [digit_char n]
      else digits_of base (n div base) @ [digit_char (n mod base)])"

declare digits_of.simps [simp del]

definition int_toString :: "nat \<Rightarrow> int \<Rightarrow> string" where
  "int_toString base n =
     (if n < 0 then CHR ''-'' # digits_of base (nat (- n)) else digits_of base (nat n))"

text \<open>\<open>buf.toString("hex")\<close>: two lower-case digits per byte.\<close>

definition toString_hex :: "buffer \<Rightarrow> string" where
  "toString_hex buf =
     concat (map (\<lambda>b. [digit_char (unat b div 16), digit_char (unat b mod 16)]) buf)"

section \<open>The error catalog (cipErrorCodes.js)\<close>

text \<open>
  The repository holds two copies of \<open>cipErrorCodes.js\<close>. Each table is an object literal
  with numeric keys, listed here in source order as (key, name, description). The first
  copy writes the key \<open>0x2D\<close> twice; in an object literal the later entry wins.
\<close>

type_synonym catalog = "(int \<times> string \<times> string) list"

definition CIP_ERROR_CODES_1 :: catalog where
  "CIP_ERROR_CODES_1 = [
    (0x00, ''Success'', ''Operation successful''),
    (0x01, ''ConnectionFailure'', ''Connection failed''),
    (0x02, ''ResourceUnavailable'', ''Resource unavailable''),
    (0x03, ''InvalidParameter'', ''Invalid parameter''),
    (0x04, ''PathSegmentError'', ''Path segment error''),
    (0x05, ''PathDestinationUnknown'', ''Destination path unknown''),
    (0x06, ''PartialTransfer'', ''Partial data transfer''),
    (0x07, ''ConnectionLost'', ''Connection lost''),
    (0x08, ''ServiceNotSupported'', ''Service not supported''),
    (0x09, ''InvalidAttributeValue'', ''Invalid attribute value''),
    (0x0A, ''AttributeListError'', ''Attribute list error''),
    (0x0B, ''AlreadyInRequestedMode'', ''Already in requested mode''),
    (0x0C, ''ObjectStateConflict'', ''Object state conflict''),
    (0x0D, ''ObjectAlreadyExists'', ''Object already exists''),
    (0x0E, ''AttributeNotSettable'', ''Attribute not settable''),
    (0x0F, ''PrivilegeViolation'', ''Insufficient privileges''),
    (0x10, ''DevInWrongState'', ''Device is not in the correct mode''),
    (0x11, ''ReplyDataTooLarge'', ''Response data packet is too large''),
    (0x12, ''FragmentPrimitive'', ''Primitive value will be fragmented''),
    (0x13, ''ConfigTooSmall'', ''Service did not provide enough data''),
    (0x14, ''UndefinedAttr'', ''Attribute not supported in FIND''),
    (0x15, ''ConfigTooBig'', ''Service provided data exceeds expectations''),
    (0x16, ''ObjDoesNotExist'', ''Specified object does not exist''),
    (0x17, ''NoFragmentation'', ''Fragmentation not activated''),
    (0x18, ''DataNotSaved'', ''Attribute data not saved''),
    (0x19, ''DataWriteFailure'', ''Attribute data write failure''),
    (0x1A, ''RequestTooLarge'', ''Routing failure: request too large''),
    (0x1B, ''ResponseTooLarge'', ''Routing failure: response too large''),
    (0x1C, ''MissingListData'', ''Attribute data not found in the list''),
    (0x1D, ''InvalidListStatus'', ''Returned attribute status list''),
    (0x1E, ''ServiceError'', ''Embedded service failure''),
    (0x1F, ''ConnRelatedFailure'', ''Connection handling error''),
    (0x20, ''InvalidParameter'', ''Error in parameters associated with the request''),
    (0x21, ''WriteOnceFailure'', ''Write once has been completed''),
    (0x22, ''InvalidReply'', ''Received invalid reply''),
    (0x23, ''CstNotSynchronized'', ''CST not synchronized''),
    (0x25, ''BadKeyInPath'', ''Electronic key failure in the path''),
    (0x26, ''BadPathSize'', ''Invalid path size''),
    (0x27, ''UnexpectedAttr'', ''Attribute cannot be set at this time''),
    (0x28, ''InvalidMember'', ''Member ID does not exist in the list''),
    (0x29, ''MemberNotSettable'', ''Cannot set member value''),
    (0x2A, ''DnetGrp2OnlySrvr'', ''Only Dnet group 2 server error''),
    (0x2B, ''DisqualifiedMode'', ''Redundant mode has been disqualified''),
    (0x2C, ''PrimaryMode'', ''Redundant mode is primary''),
    (0x2D, ''InstanceNotDeletable'', ''Requested object instance cannot be deleted''),
    (0x2D, ''SecondaryMode'', ''Redundant mode is secondary''),
    (0x2E, ''BadServiceForPath'', ''Service not supported for the specified path''),
    (0x61, ''NvsBypass'', ''Special bypass update''),
    (0xFB, ''PortNotSupported'', ''Message port not supported''),
    (0xFF, ''GctGeneral'', ''GetConnTags ConnMngr service error''),
    (0x1000, ''VendorSpecificError'', ''Self-defined error codes'')]"

definition CIP_ERROR_CODES_2 :: catalog where
  "CIP_ERROR_CODES_2 = [
    (0x00, ''Success'', ''Operation successful''),
    (0x01, ''ConnectionFailure'', ''Connection failed''),
    (0x02, ''ResourceUnavailable'', ''Resource unavailable''),
    (0x03, ''InvalidParameter'', ''Invalid parameter''),
    (0x04, ''PathProcessingFailure'', ''Path processing failure''),
    (0x05, ''PathDestinationUnknown'', ''Destination path unknown''),
    (0x06, ''PartialTransfer'', ''Partial data transfer''),
    (0x07, ''ConnectionLost'', ''Connection lost''),
    (0x08, ''ServiceNotSupported'', ''Service not supported''),
    (0x09, ''AttributeNotSupported'', ''Attribute not supported''),
    (0x0A, ''AttributeListError'', ''Attribute list error''),
    (0x0B, ''AlreadyInRequestedMode'', ''Already in requested mode''),
    (0x0C, ''ObjectStateConflict'', ''Object state conflict''),
    (0x0D, ''ObjectAlreadyExists'', ''Object already exists''),
    (0x0E, ''AttributeNotSettable'', ''Attribute not settable''),
    (0x0F, ''PrivilegeViolation'', ''Insufficient privileges''),
    (0x10, ''DeviceStateConflict'', ''Device is not in the correct mode''),
    (0x11, ''ReplyDataTooLarge'', ''Response data packet is too large''),
    (0x12, ''FragmentationOfPrimitive'', ''Primitive value will be fragmented''),
    (0x13, ''NotEnoughData'', ''Not enough data''),
    (0x14, ''AttributeNotFound'', ''Attribute not found''),
    (0x15, ''TooMuchData'', ''Service provided data exceeds expectations''),
    (0x16, ''ObjectDoesNotExist'', ''Specified object does not exist''),
    (0x17, ''NoFragmentation'', ''Fragmentation not activated''),
    (0x18, ''DataNotSaved'', ''Attribute data not saved''),
    (0x19, ''DataWriteFailure'', ''Attribute data write failure''),
    (0x1A, ''RequestTooLarge'', ''Routing failure: request too large''),
    (0x1B, ''ResponseTooLarge'', ''Routing failure: response too large''),
    (0x1C, ''MissingListData'', ''Attribute data not found in the list''),
    (0x1D, ''InvalidListStatus'', ''Returned attribute status list''),
    (0x1E, ''ServiceError'', ''Embedded service failure''),
    (0x1F, ''ConnectionRelatedFailure'', ''Connection handling error''),
    (0x21, ''WriteOnceFailure'', ''Write once has been completed''),
    (0x22, ''InvalidReply'', ''Received invalid reply''),
    (0x23, ''BufferInvalidSize'', ''Buffer size mismatch''),
    (0x24, ''InvalidAttributeData'', ''Invalid attribute data''),
    (0x25, ''InvalidKeySegmentInPath'', ''Electronic key failure in the path''),
    (0x26, ''InvalidPathSize'', ''Invalid path size''),
    (0x27, ''UnexpectedAttribute'', ''Attribute cannot be set at this time''),
    (0x28, ''InvalidMember'', ''Member ID does not exist in the list''),
    (0x29, ''MemberNotSettable'', ''Cannot set member value''),
    (0x2A, ''DnetGroup2OnlyServer'', ''Only Dnet group 2 server error''),
    (0x2B, ''DisqualifiedRedundancyMode'', ''Redundant mode has been disqualified''),
    (0x2C, ''PrimaryMode'', ''Redundant mode is primary''),
    (0x2D, ''InstanceNotDeletable'', ''Requested object instance cannot be deleted''),
    (0x2E, ''SecondaryMode'', ''Redundant mode is secondary''),
    (0x2F, ''InvalidServiceForPath'', ''Service not supported for the specified path''),
    (0x61, ''NvsUpdateInProgress'', ''Special bypass update''),
    (0xFB, ''MessagePortNotSupported'', ''Message port not supported''),
    (0xFF, ''GeneralError'', ''General error''),
    (0x1000, ''VendorSpecificError'', ''Vendor specific error codes'')]"

text \<open>\<open>CIP_ERROR_CODES[statusCode]\<close>: the last entry written for the key, if any.\<close>

definition catalog_lookup :: "catalog \<Rightarrow> int \<Rightarrow> (string \<times> string) option" where
  "catalog_lookup tbl statusCode = map_of (rev tbl) statusCode"

definition isRecoverableError :: "int \<Rightarrow> bool" where
  "isRecoverableError c = (c \<in> set [0x02, 0x06, 0x07])"

text \<open>
  The fallback description of the first copy is a template in Chinese (given here as its
  UTF-8 bytes) that does not close its parenthesis; the second copy's is in English.
\<close>

definition unknown_description_1 :: "int \<Rightarrow> string" where
  "unknown_description_1 statusCode =
     [CHR 0xE6, CHR 0x9C, CHR 0xAA, CHR 0xE7, CHR 0x9F, CHR 0xA5,
      CHR 0xE9, CHR 0x94, CHR 0x99, CHR 0xE8, CHR 0xAF, CHR 0xAF]
     @ '' (Code: 0x'' @ int_toString 16 statusCode"

definition unknown_description_2 :: "int \<Rightarrow> string" where
  "unknown_description_2 statusCode =
     ''Unknown error (Code: 0x'' @ int_toString 16 statusCode @ '')''"

definition parse_with ::
  "catalog \<Rightarrow> (int \<Rightarrow> string) \<Rightarrow> int \<Rightarrow> int \<Rightarrow> cip_error" where
  "parse_with tbl unknown_description statusCode extendedStatus =
     (let error = (case catalog_lookup tbl statusCode of
                     Some e \<Rightarrow> e
                   | None \<Rightarrow> (''UnknownError'', unknown_description statusCode))
      in \<lparr> code = statusCode, extendedCode = extendedStatus,
           name = fst error, description = snd error,
           isRecoverable = isRecoverableError statusCode \<rparr>)"

text \<open>\<open>CIPErrorParser.parse\<close> of the first and of the second copy.\<close>

definition parse_1 :: "int \<Rightarrow> int \<Rightarrow> cip_error" where
  "parse_1 = parse_with CIP_ERROR_CODES_1 unknown_description_1"

definition parse_2 :: "int \<Rightarrow> int \<Rightarrow> cip_error" where
  "parse_2 = parse_with CIP_ERROR_CODES_2 unknown_description_2"

section \<open>JavaScript values\<close>

text \<open>
  A JavaScript number is a finite value (a rational here), NaN, or an infinity
  (\<open>Infinity True\<close> is the positive one).
\<close>

datatype jsnumber = Finite rat | NaN | Infinity bool

text \<open>
  The values passed as identifiers and bound as globals: \<open>undefined\<close>, \<open>null\<close>, numbers
  and plain objects (a list of properties).
\<close>

datatype jsval = JUndefined | JNull | JNum jsnumber | JObj "(string \<times> jsval) list"

definition trunc :: "rat \<Rightarrow> int" where
  "trunc q = (if 0 \<le> q then \<lfloor>q\<rfloor> else \<lceil>q\<rceil>)"

fun Number_isInteger :: "jsval \<Rightarrow> bool" where
  "Number_isInteger (JNum (Finite q)) = (of_int \<lfloor>q\<rfloor> = q)"
| "Number_isInteger _ = False"

text \<open>\<open>ToNumber\<close>; a plain object converts to NaN.\<close>

fun ToNumber :: "jsval \<Rightarrow> jsnumber" where
  "ToNumber JUndefined = NaN"
| "ToNumber JNull = Finite 0"
| "ToNumber (JNum x) = x"
| "ToNumber (JObj _) = NaN"

text \<open>The comparisons \<open>x < c\<close> and \<open>x > c\<close> of a number with a finite constant.\<close>

fun num_less :: "jsnumber \<Rightarrow> rat \<Rightarrow> bool" where
  "num_less (Finite q) c = (q < c)"
| "num_less NaN c = False"
| "num_less (Infinity pos) c = (\<not> pos)"

fun num_greater :: "jsnumber \<Rightarrow> rat \<Rightarrow> bool" where
  "num_greater (Finite q) c = (q > c)"
| "num_greater NaN c = False"
| "num_greater (Infinity pos) c = pos"

text \<open>
  \<open>ToUint8\<close>, the conversion a \<open>Buffer\<close> applies to a number stored into it: truncation
  towards zero, then reduction modulo 256; NaN and the infinities give 0.
\<close>

fun ToUint8 :: "jsnumber \<Rightarrow> byte" where
  "ToUint8 (Finite q) = word_of_int (trunc q)"
| "ToUint8 _ = 0"

text \<open>\<open>ToInt32\<close>, applied by the operators \<open>&\<close> and \<open>>>\<close> to their operands.\<close>

fun ToInt32 :: "jsnumber \<Rightarrow> int" where
  "ToInt32 (Finite q) = sint (word_of_int (trunc q) :: 32 word)"
| "ToInt32 _ = 0"

text \<open>\<open>Buffer.from(array)\<close> for an array of values.\<close>

definition Buffer_from :: "jsval list \<Rightarrow> buffer" where
  "Buffer_from xs = map (\<lambda>x. ToUint8 (ToNumber x)) xs"

section \<open>Object paths (cipParser.js, buildObjectPath)\<close>

definition PATH_SEGMENTS_CLASS :: jsval where
  "PATH_SEGMENTS_CLASS = JNum (Finite 0x20)"

definition PATH_SEGMENTS_INSTANCE :: jsval where
  "PATH_SEGMENTS_INSTANCE = JNum (Finite 0x24)"

definition PATH_SEGMENTS_ATTRIBUTE :: jsval where
  "PATH_SEGMENTS_ATTRIBUTE = JNum (Finite 0x30)"

text \<open>\<open>id !== undefined && id !== null\<close> (the parameter \<open>id\<close> is \<open>idv\<close> here)\<close>

definition present :: "jsval \<Rightarrow> bool" where
  "present idv = (idv \<noteq> JUndefined \<and> idv \<noteq> JNull)"

text \<open>The inner function \<open>validateId\<close>: false for an absent id, a throw for an invalid one.\<close>

definition validateId :: "jsval \<Rightarrow> string \<Rightarrow> error + bool" where
  "validateId idv nm =
     (if idv = JUndefined \<or> idv = JNull then Inr False
      else if \<not> Number_isInteger idv \<or> num_less (ToNumber idv) 0
              \<or> num_greater (ToNumber idv) 0xFFFF
      then Inl (InvalidId nm)
      else Inr True)"

text \<open>
  \<open>a || b\<close> on the results of \<open>validateId\<close>: \<open>b\<close> is evaluated only when \<open>a\<close> returned
  false; a throw of \<open>a\<close> propagates.
\<close>

definition or_else :: "error + bool \<Rightarrow> error + bool \<Rightarrow> error + bool" where
  "or_else a b = (case a of Inl e \<Rightarrow> Inl e | Inr True \<Rightarrow> Inr True | Inr False \<Rightarrow> b)"

definition push_segment :: "jsval list \<Rightarrow> jsval \<Rightarrow> jsval \<Rightarrow> jsval list" where
  "push_segment path seg idv = (if present idv then path @ [seg, idv] else path)"

definition buildObjectPath :: "jsval \<Rightarrow> jsval \<Rightarrow> jsval \<Rightarrow> error + buffer" where
  "buildObjectPath classId instanceId attributeId =
     (case or_else (validateId classId ''Class'')
             (or_else (validateId instanceId ''Instance'')
                      (validateId attributeId ''Attribute'')) of
        Inl e \<Rightarrow> Inl e
      | Inr hasValidId \<Rightarrow>
          if \<not> hasValidId then Inl MissingIdentifier
          else
            let path = [];
                path = push_segment path PATH_SEGMENTS_CLASS classId;
                path = push_segment path PATH_SEGMENTS_INSTANCE instanceId;
                path = push_segment path PATH_SEGMENTS_ATTRIBUTE attributeId
            in Inr (Buffer_from path))"

section \<open>The data type registry and the decoder (cipDataTypes.js)\<close>

text \<open>
  An entry of \<open>CIP_DATA_TYPES\<close>: its code and its size, \<open>None\<close> where the source has
  \<open>size: null\<close> (the \<open>encode\<close> functions of the entries are not used by the decoder
  nor by \<open>encodeData\<close>). The table is an object keyed by the type's name; the entry
  \<open>CIP_DATA_TYPES.BOOL\<close> is \<open>CIP_BOOL\<close> here, and so on.
\<close>

datatype cip_type = CipType (type_code: nat) (type_size: "nat option")

definition CIP_BOOL :: cip_type where "CIP_BOOL = CipType 0xC1 (Some 1)"
definition CIP_SINT :: cip_type where "CIP_SINT = CipType 0xC2 (Some 1)"
definition CIP_INT :: cip_type where "CIP_INT = CipType 0xC3 (Some 2)"
definition CIP_DINT :: cip_type where "CIP_DINT = CipType 0xC4 (Some 4)"
definition CIP_REAL :: cip_type where "CIP_REAL = CipType 0xCA (Some 4)"
definition CIP_STRING :: cip_type where "CIP_STRING = CipType 0xDA None"
definition CIP_ARRAY :: cip_type where "CIP_ARRAY = CipType 0xE0 None"
definition CIP_STRUCT :: cip_type where "CIP_STRUCT = CipType 0xE1 None"
definition CIP_LREAL :: cip_type where "CIP_LREAL = CipType 0xCB (Some 8)"

definition CIP_DATA_TYPES :: "(string \<times> cip_type) list" where
  "CIP_DATA_TYPES =
     [(''BOOL'', CIP_BOOL), (''SINT'', CIP_SINT), (''INT'', CIP_INT), (''DINT'', CIP_DINT),
      (''REAL'', CIP_REAL), (''STRING'', CIP_STRING), (''ARRAY'', CIP_ARRAY), (''STRUCT'', CIP_STRUCT),
      (''LREAL'', CIP_LREAL)]"

text \<open>\<open>Object.values(CIP_DATA_TYPES).find(t => t.code === typeCode)\<close>\<close>

definition find_type :: "nat \<Rightarrow> cip_type option" where
  "find_type typeCode = find (\<lambda>t. type_code t = typeCode) (map snd CIP_DATA_TYPES)"

text \<open>
  \<open>CIP_DATA_TYPES[k]?.size || 0\<close> for a number \<open>k\<close>: the property whose key is the
  decimal string of \<open>k\<close>, its size, and 0 when the property or the size is missing.
\<close>

definition size_by_key :: "nat \<Rightarrow> nat" where
  "size_by_key k =
     (case map_of CIP_DATA_TYPES (int_toString 10 (int k)) of
        None \<Rightarrow> 0
      | Some t \<Rightarrow> (case type_size t of None \<Rightarrow> 0 | Some s \<Rightarrow> s))"

text \<open>
  Decoded values. A REAL is read by \<open>readFloatBE\<close>/\<open>readFloatLE\<close>; \<open>VReal u\<close> stands
  for the single-precision number whose IEEE-754 bit pattern is the 32-bit value \<open>u\<close>.
  \<open>VBuffer\<close> is a raw \<open>Buffer\<close> returned undecoded. A member of a decoded STRUCT is
  the object \<open>{type, value}\<close>.
\<close>

datatype cipval =
    VBool bool
  | VInt int
  | VReal nat
  | VString string
  | VArray "cipval list"
  | VStruct "(nat \<times> cipval) list"
  | VBuffer buffer

text \<open>\<open>buf.toString("ascii")\<close> clears the highest bit of every byte.\<close>

definition toString_ascii :: "buffer \<Rightarrow> string" where
  "toString_ascii buf = map (\<lambda>b. char_of (unat (b AND 0x7F))) buf"

text \<open>Running the body of a \<open>for\<close> loop over its indices, stopping at the first throw.\<close>

fun for_each :: "('a \<Rightarrow> error + 'b) \<Rightarrow> 'a list \<Rightarrow> error + 'b list" where
  "for_each f [] = Inr []"
| "for_each f (x # xs) =
     (case f x of
        Inl e \<Rightarrow> Inl e
      | Inr y \<Rightarrow> (case for_each f xs of Inl e \<Rightarrow> Inl e | Inr ys \<Rightarrow> Inr (y # ys)))"

lemma for_each_cong [fundef_cong]:
  "xs = ys \<Longrightarrow> (\<And>x. x \<in> set ys \<Longrightarrow> f x = g x) \<Longrightarrow> for_each f xs = for_each g ys"
  by (induction ys arbitrary: xs) (auto split: sum.splits)

lemma readUInt16BE_Inr_length: "readUInt16BE buf off = Inr v \<Longrightarrow> off + 2 \<le> length buf"
  by (simp add: readUInt16BE_def split: if_splits)

lemma length_slice_less:
  "0 < a \<Longrightarrow> 0 < length buf \<Longrightarrow> length (slice buf a b) < length buf"
  unfolding slice_def by (cases buf) (auto simp: min_def)

text \<open>
  \<open>decode\<close>, \<open>decodeArray\<close> and \<open>decodeStruct\<close>. In \<open>decodeArray\<close> the element size
  does not change inside the loop, so iteration \<open>i\<close> starts at offset
  \<open>4 + i * elementSize\<close>. The loop of \<open>decodeStruct\<close> is \<open>struct_members\<close>, which takes
  the number of members still to read and the current offset.
\<close>

function decode :: "nat \<Rightarrow> buffer \<Rightarrow> bool \<Rightarrow> error + cipval"
  and decodeArray :: "buffer \<Rightarrow> bool \<Rightarrow> error + cipval list"
  and decodeStruct :: "buffer \<Rightarrow> bool \<Rightarrow> error + (nat \<times> cipval) list"
  and struct_members :: "nat \<Rightarrow> nat \<Rightarrow> buffer \<Rightarrow> bool \<Rightarrow> error + (nat \<times> cipval) list"
where
  "decode typeCode data isBigEndian =
     (case find_type typeCode of
        None \<Rightarrow> Inl (UnsupportedCIPDataType typeCode)
      | Some ty \<Rightarrow>
          if typeCode = type_code CIP_BOOL then
            map_result (\<lambda>v. VBool (v \<noteq> 0)) (readUInt8 data 0)
          else if typeCode = type_code CIP_SINT then
            map_result VInt (readInt8 data 0)
          else if typeCode = type_code CIP_INT then
            map_result VInt (if isBigEndian then readInt16BE data 0 else readInt16LE data 0)
          else if typeCode = type_code CIP_DINT then
            map_result VInt (if isBigEndian then readInt32BE data 0 else readInt32LE data 0)
          else if typeCode = type_code CIP_REAL then
            map_result VReal (if isBigEndian then readUInt32BE data 0 else readUInt32LE data 0)
          else if typeCode = type_code CIP_STRING then
            map_result (\<lambda>len. VString (toString_ascii (slice data 1 (1 + len))))
              (readUInt8 data 0)
          else if typeCode = type_code CIP_ARRAY then
            map_result VArray (decodeArray data isBigEndian)
          else if typeCode = type_code CIP_STRUCT then
            map_result VStruct (decodeStruct data isBigEndian)
          else Inr (VBuffer data))"
| "decodeArray data isBigEndian =
     (case readUInt16BE data 0 of
        Inl e \<Rightarrow> Inl e
      | Inr elementType \<Rightarrow>
          (case readUInt16BE data 2 of
             Inl e \<Rightarrow> Inl e
           | Inr elementCount \<Rightarrow>
               for_each
                 (\<lambda>i. let elementSize = size_by_key elementType;
                          offset = 4 + i * elementSize;
                          elementData = slice data offset (offset + elementSize)
                      in decode elementType elementData isBigEndian)
                 [0..<elementCount]))"
| "decodeStruct data isBigEndian =
     (case readUInt16BE data 0 of
        Inl e \<Rightarrow> Inl e
      | Inr memberCount \<Rightarrow> struct_members memberCount 2 data isBigEndian)"
| "struct_members n offset data isBigEndian =
     (if n = 0 then Inr []
      else
        (case readUInt16BE data offset of
           Inl e \<Rightarrow> Inl e
         | Inr memberType \<Rightarrow>
             let offset = offset + 2;
                 memberSize = size_by_key memberType;
                 memberData = slice data offset (offset + memberSize)
             in (case decode memberType memberData isBigEndian of
                   Inl e \<Rightarrow> Inl e
                 | Inr v \<Rightarrow>
                     (case struct_members (n - 1) (offset + memberSize) data isBigEndian of
                        Inl e \<Rightarrow> Inl e
                      | Inr members \<Rightarrow> Inr ((memberType, v) # members)))))"
  by pat_completeness auto

termination
proof (relation "measures
    [\<lambda>c. case c of
           Inl (Inl (tc, d, be)) \<Rightarrow> length d
         | Inl (Inr (d, be)) \<Rightarrow> length d
         | Inr (Inl (d, be)) \<Rightarrow> length d
         | Inr (Inr (n, off, d, be)) \<Rightarrow> length d,
     \<lambda>c. case c of
           Inl (Inl (tc, d, be)) \<Rightarrow> 2
         | Inl (Inr (d, be)) \<Rightarrow> 1
         | Inr (Inl (d, be)) \<Rightarrow> 1
         | Inr (Inr (n, off, d, be)) \<Rightarrow> 0,
     \<lambda>c. case c of
           Inl (Inl (tc, d, be)) \<Rightarrow> 0
         | Inl (Inr (d, be)) \<Rightarrow> 0
         | Inr (Inl (d, be)) \<Rightarrow> 0
         | Inr (Inr (n, off, d, be)) \<Rightarrow> n]", goal_cases)
  case 1
  show ?case by simp
next
  case 2
  then show ?case by simp
next
  case 3
  then show ?case by simp
next
  case 4
  then show ?case
    by (auto dest!: readUInt16BE_Inr_length intro!: length_slice_less)
next
  case 5
  then show ?case by simp
next
  case 6
  then show ?case
    by (auto dest!: readUInt16BE_Inr_length intro!: length_slice_less)
next
  case 7
  then show ?case by simp
qed

section \<open>Encoding (cipParser.js, encodeData)\<close>

text \<open>
  \<open>encodeData\<close> accepts any value and looks at it through three conversions only:
  \<open>value ? a : b\<close> tests its truthiness, \<open>value & 0xFF\<close>, \<open>value >> 8\<close> and
  \<open>writeInt32BE(value)\<close> take its numeric value, \<open>String(value)\<close> its text (a
  sequence of 16-bit code units). A value is given by the results of these conversions.
\<close>

record jsvalue =
  truthy :: bool
  number :: jsnumber
  string_of :: "16 word list"

text \<open>The number \<open>n\<close> (an integer with fewer than 22 digits) and the booleans as values.\<close>

definition js_int :: "int \<Rightarrow> jsvalue" where
  "js_int n = \<lparr> truthy = (n \<noteq> 0), number = Finite (of_int n),
               string_of = map (\<lambda>c. of_nat (of_char c)) (int_toString 10 n) \<rparr>"

definition js_bool :: "bool \<Rightarrow> jsvalue" where
  "js_bool b = \<lparr> truthy = b, number = Finite (if b then 1 else 0),
                string_of = map (\<lambda>c. of_nat (of_char c)) (if b then ''true'' else ''false'') \<rparr>"

text \<open>\<open>ToUint32\<close>, applied by \<open>>>>\<close> inside the writers of \<open>Buffer\<close>.\<close>

fun ToUint32 :: "jsnumber \<Rightarrow> nat" where
  "ToUint32 (Finite q) = unat (word_of_int (trunc q) :: 32 word)"
| "ToUint32 _ = 0"

text \<open>The byte a \<open>Buffer\<close> stores for a non-negative integer: its value modulo 256.\<close>

definition byte_of :: "nat \<Rightarrow> byte" where
  "byte_of n = of_nat (n mod 256)"

text \<open>Overwriting the bytes of \<open>buf\<close> from offset \<open>off\<close> on; the callers check the bounds.\<close>

definition write_at :: "buffer \<Rightarrow> nat \<Rightarrow> buffer \<Rightarrow> buffer" where
  "write_at buf off bs = take off buf @ bs @ drop (off + length bs) buf"

text \<open>
  \<open>buf.writeInt32BE(value, offset)\<close> and \<open>buf.writeInt32LE(value, offset)\<close>: a RangeError
  for a value outside the signed 32-bit range or a write outside the buffer; NaN passes
  the range check and is written as 0.
\<close>

definition writeInt32BE :: "buffer \<Rightarrow> jsnumber \<Rightarrow> nat \<Rightarrow> error + buffer" where
  "writeInt32BE buf v off =
     (if num_greater v 0x7FFFFFFF \<or> num_less v (- 0x80000000) then Inl RangeError
      else if length buf < off + 4 then Inl RangeError
      else
        let u = ToUint32 v
        in Inr (write_at buf off
                  [byte_of (u div 16777216), byte_of (u div 65536), byte_of (u div 256), byte_of u]))"

definition writeInt32LE :: "buffer \<Rightarrow> jsnumber \<Rightarrow> nat \<Rightarrow> error + buffer" where
  "writeInt32LE buf v off =
     (if num_greater v 0x7FFFFFFF \<or> num_less v (- 0x80000000) then Inl RangeError
      else if length buf < off + 4 then Inl RangeError
      else
        let u = ToUint32 v
        in Inr (write_at buf off
                  [byte_of u, byte_of (u div 256), byte_of (u div 65536), byte_of (u div 16777216)]))"

text \<open>\<open>Buffer.alloc(n)\<close>\<close>

definition Buffer_alloc :: "nat \<Rightarrow> buffer" where
  "Buffer_alloc n = replicate n 0"

text \<open>
  \<open>encodeData(value, dataType, isBigEndian)\<close>. The \<open>switch\<close> compares \<open>dataType.code\<close>
  with the codes of BOOL, SINT, INT, DINT, REAL and STRING, in this order; every other
  code reaches \<open>default\<close>.
\<close>

definition encodeData :: "jsvalue \<Rightarrow> cip_type \<Rightarrow> bool \<Rightarrow> error + buffer" where
  "encodeData val dataType isBigEndian =
     (let c = type_code dataType in
      if c = type_code CIP_BOOL then
        Inr [if truthy val then 0xFF else 0x00]
      else if c = type_code CIP_SINT then
        Inr [word_of_int (ToInt32 (number val) AND 0xFF)]
      else if c = type_code CIP_INT then
        Inr (if isBigEndian
             then [word_of_int (drop_bit 8 (ToInt32 (number val)) AND 0xFF),
                   word_of_int (ToInt32 (number val) AND 0xFF)]
             else [word_of_int (ToInt32 (number val) AND 0xFF),
                   word_of_int (drop_bit 8 (ToInt32 (number val)) AND 0xFF)])
      else if c = type_code CIP_DINT \<or> c = type_code CIP_REAL then
        (let buf = Buffer_alloc 4
         in if isBigEndian then writeInt32BE buf (number val) 0
            else writeInt32LE buf (number val) 0)
      else if c = type_code CIP_STRING then
        (let maxLength = 255;
             str = take maxLength (string_of val);
             strBuffer = map ucast str :: buffer
         in Inr (of_nat (length strBuffer) # strBuffer))
      else Inl (UnsupportedDataType c))"

declare decode.simps [simp del] decodeArray.simps [simp del]
  decodeStruct.simps [simp del] struct_members.simps [simp del]

text \<open>
  \<open>decode(T, encodeData(v, T, be), be)\<close>: the composition whose result the round-trip
  property compares with \<open>v\<close>.
\<close>

definition round_trip :: "cip_type \<Rightarrow> jsvalue \<Rightarrow> bool \<Rightarrow> error + cipval" where
  "round_trip ty v isBigEndian =
     (case encodeData v ty isBigEndian of
        Inl e \<Rightarrow> Inl e
      | Inr bs \<Rightarrow> decode (type_code ty) bs isBigEndian)"

section \<open>Attribute responses (cipParser.js, parseAttributeResponse)\<close>

text \<open>
  The first statement of \<open>parseAttributeResponse\<close> reads the identifiers \<open>classId\<close>,
  \<open>CIP_CLASS_IDS\<close> and \<open>CipConnOwner\<close>. None of them is a parameter of the function
  or a binding of the module \<open>cipParser.js\<close> (which binds \<open>Buffer\<close>, \<open>debug\<close>, \<open>log\<close>,
  \<open>cipDataTypes\<close>, \<open>CIP_DATA_TYPES\<close>, \<open>CIPDataTypeDecoder\<close>, \<open>cipErrorCodes\<close>,
  \<open>CIPErrorParser\<close>, \<open>PATH_SEGMENTS\<close> and \<open>CIPParser\<close>), so each resolves to a property
  of the global object, and reading it throws a ReferenceError when there is none.
  The global object is a parameter \<open>g\<close>: the value of each global name, if defined.
\<close>

type_synonym globals = "string \<Rightarrow> jsval option"

definition resolve :: "globals \<Rightarrow> string \<Rightarrow> error + jsval" where
  "resolve g x = (case g x of None \<Rightarrow> Inl (ReferenceError x) | Some v \<Rightarrow> Inr v)"

text \<open>\<open>obj.prop\<close>: a TypeError on \<open>undefined\<close> and \<open>null\<close>, \<open>undefined\<close> for a missing property.\<close>

fun get_member :: "jsval \<Rightarrow> string \<Rightarrow> error + jsval" where
  "get_member JUndefined p = Inl TypeError"
| "get_member JNull p = Inl TypeError"
| "get_member (JNum x) p = Inr JUndefined"
| "get_member (JObj ps) p = (case map_of ps p of None \<Rightarrow> Inr JUndefined | Some v \<Rightarrow> Inr v)"

text \<open>
  \<open>a === b\<close>. NaN equals nothing. Objects are equal when they are the same object; the
  values here carry no identity, and two object values count as different objects.
\<close>

fun strict_equal :: "jsval \<Rightarrow> jsval \<Rightarrow> bool" where
  "strict_equal JUndefined JUndefined = True"
| "strict_equal JNull JNull = True"
| "strict_equal (JNum a) (JNum b) = (a = b \<and> a \<noteq> NaN)"
| "strict_equal _ _ = False"

text \<open>The argument \<open>response\<close>: a \<open>Buffer\<close>, or any value that is not one.\<close>

datatype response = Buf buffer | NotABuffer

text \<open>
  What \<open>parseAttributeResponse\<close> returns: \<open>{dataType, value}\<close>, or
  \<open>{isRedundant, transportClass}\<close> from its first branch.
\<close>

datatype parse_result =
    AttributeValue (dataType: nat) (val: cipval)
  | ConnectionStatus (isRedundant_flag: bool) (transportClass: int)

text \<open>
  The statements of \<open>parseAttributeResponse\<close> after its first \<open>if\<close>. The parameter
  \<open>errorParser\<close> is \<open>CIPErrorParser.parse\<close> of the imported copy of cipErrorCodes.js.
\<close>

definition parse_attribute_body ::
  "(int \<Rightarrow> int \<Rightarrow> cip_error) \<Rightarrow> response \<Rightarrow> bool \<Rightarrow> error + parse_result" where
  "parse_attribute_body errorParser resp isBigEndian =
     (case resp of
        NotABuffer \<Rightarrow> Inl ResponseNotBuffer
      | Buf b \<Rightarrow>
          if length b < 4 then Inl (InvalidResponseLength (length b))
          else
            (case readUInt8 b 0 of
               Inl e \<Rightarrow> Inl e
             | Inr status \<Rightarrow>
                 if status \<noteq> 0x00 then
                   (case (if 3 \<le> length b then readUInt16BE b 1 else Inr 0) of
                      Inl e \<Rightarrow> Inl e
                    | Inr extendedStatus \<Rightarrow>
                        Inl (ProtocolStatusError
                               (errorParser (int status) (int extendedStatus))
                               (toString_hex b)))
                 else
                   (case readUInt16BE b 2 of
                      Inl e \<Rightarrow> Inl e
                    | Inr dataTypeCode \<Rightarrow>
                        let data = slice b 4 (length b)
                        in (case decode dataTypeCode data isBigEndian of
                              Inl decodeError \<Rightarrow>
                                Inl (Decode_Error decodeError (toString_hex data))
                            | Inr v \<Rightarrow> Inr (AttributeValue dataTypeCode v)))))"

definition parseAttributeResponse ::
  "(int \<Rightarrow> int \<Rightarrow> cip_error) \<Rightarrow> globals \<Rightarrow> response \<Rightarrow> bool \<Rightarrow> error + parse_result" where
  "parseAttributeResponse errorParser g resp isBigEndian =
     (case resolve g ''classId'' of
        Inl e \<Rightarrow> Inl e
      | Inr classId \<Rightarrow>
     (case resolve g ''CIP_CLASS_IDS'' of
        Inl e \<Rightarrow> Inl e
      | Inr class_ids \<Rightarrow>
     (case get_member class_ids ''CONNECTION'' of
        Inl e \<Rightarrow> Inl e
      | Inr connection \<Rightarrow>
          if strict_equal classId connection then
            (case resp of
               NotABuffer \<Rightarrow> Inl TypeError
             | Buf b \<Rightarrow>
            (case readUInt16BE b 4 of
               Inl e \<Rightarrow> Inl e
             | Inr connStatus \<Rightarrow>
            (case resolve g ''CipConnOwner'' of
               Inl e \<Rightarrow> Inl e
             | Inr owner \<Rightarrow>
            (case get_member owner ''REDUNDANT_OWNER'' of
               Inl e \<Rightarrow> Inl e
             | Inr redundant \<Rightarrow>
                 Inr (ConnectionStatus
                        (int connStatus AND ToInt32 (ToNumber redundant) \<noteq> 0)
                        (int connStatus AND 0x000F))))))
          else parse_attribute_body errorParser resp isBigEndian)))"

section \<open>Encapsulation (cipClient.js, buildEncapMessage)\<close>

text \<open>
  \<open>buf.writeUInt16LE\<close> and \<open>buf.writeUInt32LE\<close> for an integer value: a RangeError
  for a value outside the unsigned range or a write outside the buffer.
\<close>

definition writeUInt16LE :: "buffer \<Rightarrow> int \<Rightarrow> nat \<Rightarrow> error + buffer" where
  "writeUInt16LE buf v off =
     (if v < 0 \<or> 0xFFFF < v then Inl RangeError
      else if length buf < off + 2 then Inl RangeError
      else Inr (write_at buf off [byte_of (nat v), byte_of (nat v div 256)]))"

definition writeUInt32LE :: "buffer \<Rightarrow> int \<Rightarrow> nat \<Rightarrow> error + buffer" where
  "writeUInt32LE buf v off =
     (if v < 0 \<or> 0xFFFFFFFF < v then Inl RangeError
      else if length buf < off + 4 then Inl RangeError
      else Inr (write_at buf off
                  [byte_of (nat v), byte_of (nat v div 256), byte_of (nat v div 65536),
                   byte_of (nat v div 16777216)]))"

text \<open>
  \<open>source.copy(target, targetStart, 0, sourceEnd)\<close>, returning the target: the first
  \<open>sourceEnd\<close> bytes of the source, as far as it has them and the target has room.
\<close>

definition copy_into :: "buffer \<Rightarrow> buffer \<Rightarrow> nat \<Rightarrow> nat \<Rightarrow> buffer" where
  "copy_into source target targetStart sourceEnd =
     write_at target targetStart (take (length target - targetStart) (take sourceEnd source))"

text \<open>\<open>a | b\<close> on integers: both operands are converted to 32 bits.\<close>

definition bit_or :: "int \<Rightarrow> int \<Rightarrow> int" where
  "bit_or a b = ToInt32 (Finite (of_int a)) OR ToInt32 (Finite (of_int b))"

text \<open>
  The fields of a \<open>CIPClient\<close> that \<open>buildEncapMessage\<close> reads. The connection
  parameters are integers; the constructor sets them to \<open>EXCLUSIVE_OWNER\<close> (0x0000),
  \<open>TYPE_PT2PT\<close> (0x4000) and \<open>PRIOR_SCHED\<close> (0x0800) unless the caller overrides them.
  The session handle is an integer, initially 0, the sender context 8 zero bytes.
\<close>

record connection_params =
  owner :: int
  conn_type :: int
  priority :: int

record cip_client =
  client_sessionHandle :: int
  senderContext :: buffer
  connectionParams :: connection_params

definition default_connectionParams :: connection_params where
  "default_connectionParams = \<lparr> owner = 0x0000, conn_type = 0x4000, priority = 0x0800 \<rparr>"

text \<open>
  \<open>buildEncapMessage(command, data)\<close> for an integer \<open>command\<close> and a \<open>Buffer\<close> \<open>data\<close>.
  The writes are in the order of the source: the connection parameters at offset 16
  first, the sender context at offset 12 last.
\<close>

definition buildEncapMessage :: "cip_client \<Rightarrow> int \<Rightarrow> buffer \<Rightarrow> error + buffer" where
  "buildEncapMessage this command data =
     (let encapHeader = Buffer_alloc 24 in
      case writeUInt16LE encapHeader
             (bit_or (bit_or (owner (connectionParams this)) (conn_type (connectionParams this)))
                     (priority (connectionParams this)))
             16 of
        Inl e \<Rightarrow> Inl e
      | Inr encapHeader \<Rightarrow>
     (case writeUInt16LE encapHeader command 0 of
        Inl e \<Rightarrow> Inl e
      | Inr encapHeader \<Rightarrow>
     (case writeUInt16LE encapHeader (int (length data)) 2 of
        Inl e \<Rightarrow> Inl e
      | Inr encapHeader \<Rightarrow>
     (case writeUInt32LE encapHeader (client_sessionHandle this) 4 of
        Inl e \<Rightarrow> Inl e
      | Inr encapHeader \<Rightarrow>
     (case writeUInt32LE encapHeader 0 8 of
        Inl e \<Rightarrow> Inl e
      | Inr encapHeader \<Rightarrow>
          let encapHeader = copy_into (senderContext this) encapHeader 12 8
          in Inr (encapHeader @ data))))))"

section \<open>The secure session (secureCIPClient.js)\<close>

text \<open>
  The state of a \<open>SecureCIPClient\<close>. The class never assigns \<open>connectionType\<close>: it is
  \<open>undefined\<close> unless the caller sets the property. \<open>sequenceNumber\<close> and
  \<open>lastActivity\<close> are the fields of \<open>securityContext\<close>.
\<close>

record secure_client =
  sessionNonce :: buffer
  sessionHandle :: nat
  sessionActive :: bool
  sequenceNumber :: nat
  lastActivity :: nat
  connectionType :: jsval

text \<open>
  What a call uses from outside the class. The class calls \<open>this.send\<close>,
  \<open>this.receive\<close> and \<open>this.buildEncapHeader\<close> without defining them (it extends no
  class): each is \<open>None\<close> when the object has no such method, and calling it is then
  a TypeError.
  \<^item> \<open>buildEncapHeader\<close>: the header the method returns.
  \<^item> \<open>send\<close>: the transport; \<open>send p\<close> tells whether the promise for packet \<open>p\<close>
    resolves (the packet is transmitted) or rejects.
  \<^item> \<open>receive\<close>: the reply the transport delivers, or its error.
  \<^item> \<open>hmac_sha256 key msg\<close>: \<open>createHmac('sha256', key).update(msg).digest()\<close>.
  \<^item> \<open>now\<close>: \<open>Date.now()\<close>.
\<close>

record secure_env =
  buildEncapHeader :: "buffer option"
  send :: "(buffer \<Rightarrow> bool) option"
  receive :: "(error + buffer) option"
  hmac_sha256 :: "buffer \<Rightarrow> buffer \<Rightarrow> buffer"
  now :: nat

text \<open>The constructor, given the bytes of \<open>randomBytes(16)\<close> and the time.\<close>

definition new_secure_client :: "buffer \<Rightarrow> nat \<Rightarrow> secure_client" where
  "new_secure_client nonce t =
     \<lparr> sessionNonce = nonce, sessionHandle = 0, sessionActive = False,
       sequenceNumber = 0, lastActivity = t, connectionType = JUndefined \<rparr>"

definition TYPE_PT2PT :: jsval where
  "TYPE_PT2PT = JNum (Finite 0x4000)"

text \<open>
  \<open>++n\<close> on the counter. The counter is a double: it starts at 0 and nothing but this
  increment changes it, so it is an integer of at most \<open>2 ^ 53\<close>, where adding 1 has no
  effect any more.
\<close>

definition increment :: "nat \<Rightarrow> nat" where
  "increment n = (if n < 2 ^ 53 then n + 1 else n)"

text \<open>\<open>buf.slice(start, end)\<close> with bounds that may be negative (counted from the end).\<close>

definition clamp_index :: "nat \<Rightarrow> int \<Rightarrow> nat" where
  "clamp_index len i = (if i < 0 then nat (int len + i) else min (nat i) len)"

definition slice_int :: "buffer \<Rightarrow> int \<Rightarrow> int \<Rightarrow> buffer" where
  "slice_int buf start end =
     slice buf (clamp_index (length buf) start) (clamp_index (length buf) end)"

definition calculateMac :: "secure_env \<Rightarrow> secure_client \<Rightarrow> buffer \<Rightarrow> buffer" where
  "calculateMac env this payload = take 8 (hmac_sha256 env (sessionNonce this) payload)"

definition sendSecureData ::
  "secure_env \<Rightarrow> secure_client \<Rightarrow> buffer \<Rightarrow> (error + buffer) \<times> secure_client" where
  "sendSecureData env this data =
     (if \<not> strict_equal (connectionType this) TYPE_PT2PT then (Inl NotPointToPoint, this)
      else if \<not> sessionActive this then (Inl SessionNotActive, this)
      else
        let sequenceBuf = Buffer_alloc 4;
            this = this\<lparr> sequenceNumber := increment (sequenceNumber this) \<rparr>
        in case writeUInt32LE sequenceBuf (int (sequenceNumber this)) 0 of
             Inl e \<Rightarrow> (Inl e, this)
           | Inr sequenceBuf \<Rightarrow>
               let mac = take 8 (hmac_sha256 env (sessionNonce this) (data @ sequenceBuf))
               in case buildEncapHeader env of
                    None \<Rightarrow> (Inl TypeError, this)
                  | Some header \<Rightarrow>
                      let securePacket = header @ data @ sequenceBuf @ mac
                      in case send env of
                           None \<Rightarrow> (Inl TypeError, this)
                         | Some transmit \<Rightarrow>
                             if transmit securePacket
                             then (Inr securePacket, this\<lparr> lastActivity := now env \<rparr>)
                             else (Inl TransportError, this))"

text \<open>
  The result \<open>Inr p\<close> of \<open>sendSecureData\<close> says that the call returned and that \<open>p\<close> is
  the packet it transmitted.
\<close>

definition receiveWithValidation :: "secure_env \<Rightarrow> secure_client \<Rightarrow> error + buffer" where
  "receiveWithValidation env this =
     (case receive env of
        None \<Rightarrow> Inl TypeError
      | Some (Inl e) \<Rightarrow> Inl e
      | Some (Inr resp) \<Rightarrow>
          if length resp < 24 then Inl InvalidLength
          else
            (case readUInt32LE resp 4 of
               Inl e \<Rightarrow> Inl e
             | Inr handle \<Rightarrow>
                 if handle \<noteq> sessionHandle this then Inl SessionHandleMismatch
                 else
                   let payload = slice_int resp 24 (- 12);
                       receivedMac = slice_int resp (- 8) (int (length resp));
                       calculatedMac = calculateMac env this payload
                   in if calculatedMac \<noteq> receivedMac then Inl SecurityError
                      else Inr payload))"

definition validateSessionResponse :: "buffer \<Rightarrow> error + unit" where
  "validateSessionResponse resp =
     (if length resp < 8 then Inl InvalidSessionResponse
      else
        (case readUInt32LE resp 4 of
           Inl e \<Rightarrow> Inl e
         | Inr statusCode \<Rightarrow>
             if statusCode \<noteq> 0x0000 then Inl (SessionRegistrationFailed statusCode)
             else Inr ()))"

text \<open>
  \<open>buildRegistrationPacket\<close>: the constants written are in range, so no write fails;
  \<open>DIRECTION_CLIENT | TRIG_CYCLIC\<close> is 0 and \<open>REGISTER_SESSION\<close> is 0x0065.
\<close>

definition buildRegistrationPacket :: "secure_client \<Rightarrow> buffer" where
  "buildRegistrationPacket this =
     (let packet = Buffer_alloc 28;
          packet = write_at packet 20 [0x00];
          packet = write_at packet 0 [0x65, 0x00];
          packet = write_at packet 2 [0x04, 0x00]
      in copy_into (sessionNonce this) packet 4 16)"

definition establishSecureSession ::
  "secure_env \<Rightarrow> secure_client \<Rightarrow> (error + unit) \<times> secure_client" where
  "establishSecureSession env this =
     (if sessionActive this then (Inl SessionAlreadyActive, this)
      else
        let registerPacket = buildRegistrationPacket this
        in case send env of
             None \<Rightarrow> (Inl TypeError, this)
           | Some transmit \<Rightarrow>
               if \<not> transmit registerPacket then (Inl TransportError, this)
               else
                 (case receiveWithValidation env this of
                    Inl e \<Rightarrow> (Inl e, this)
                  | Inr resp \<Rightarrow>
                 (case validateSessionResponse resp of
                    Inl e \<Rightarrow> (Inl e, this)
                  | Inr _ \<Rightarrow>
                 (case readUInt32LE (slice resp 4 8) 0 of
                    Inl e \<Rightarrow> (Inl e, this)
                  | Inr handle \<Rightarrow>
                      (Inr (), this\<lparr> sessionHandle := handle, sequenceNumber := 0,
                                      sessionActive := True \<rparr>)))))"

text \<open>\<open>sendSessionClose\<close>: the unregister packet (command 0x0066), handed to \<open>send\<close>.\<close>

definition sendSessionClose :: "secure_env \<Rightarrow> secure_client \<Rightarrow> error + buffer" where
  "sendSessionClose env this =
     (let packet = Buffer_alloc 24 in
      case writeUInt16LE packet 0x0066 0 of
        Inl e \<Rightarrow> Inl e
      | Inr packet \<Rightarrow>
     (case writeUInt32LE packet (int (sessionHandle this)) 4 of
        Inl e \<Rightarrow> Inl e
      | Inr packet \<Rightarrow>
     (case send env of
        None \<Rightarrow> Inl TypeError
      | Some transmit \<Rightarrow> if transmit packet then Inr packet else Inl TransportError)))"

text \<open>
  \<open>gracefulShutdown\<close>: a failure of \<open>sendSessionClose\<close> is caught and logged; the
  session is inactive afterwards in every case. The result is the packet transmitted,
  if any, and the new state.
\<close>

definition gracefulShutdown ::
  "secure_env \<Rightarrow> secure_client \<Rightarrow> buffer option \<times> secure_client" where
  "gracefulShutdown env this =
     (let transmitted =
            (if sessionActive this
             then (case sendSessionClose env this of Inl e \<Rightarrow> None | Inr p \<Rightarrow> Some p)
             else None)
      in (transmitted, this\<lparr> sessionActive := False \<rparr>))"

text \<open>
  The states a client can be in: the constructor's, and those reached from one by a
  call of a method or by the caller assigning \<open>connectionType\<close>.
\<close>

inductive reachable :: "secure_client \<Rightarrow> bool" where
  constructed: "reachable (new_secure_client nonce t)"
| assigned: "reachable this \<Longrightarrow> reachable (this\<lparr> connectionType := v \<rparr>)"
| established: "reachable this \<Longrightarrow> reachable (snd (establishSecureSession env this))"
| sent: "reachable this \<Longrightarrow> reachable (snd (sendSecureData env this data))"
| shut_down: "reachable this \<Longrightarrow> reachable (snd (gracefulShutdown env this))"

section \<open>Verified properties\<close>

subsection \<open>The error catalog\<close>

lemma catalog_lookup_None: "catalog_lookup tbl c = None \<longleftrightarrow> c \<notin> fst ` set tbl"
  by (simp add: catalog_lookup_def map_of_eq_None_iff)

text \<open>
  C9. For every status code, both copies of \<open>CIPErrorParser.parse\<close> return a descriptor
  whose \<open>isRecoverable\<close> is true exactly for the codes 0x02, 0x06 and 0x07 and whose
  \<open>code\<close> is the status code given; for a code without a catalog entry the descriptor
  is the UnknownError one, which still carries the numeric code.
\<close>

theorem parse_recoverable_and_unknown:
  "(isRecoverable (parse_1 c e) \<longleftrightarrow> c \<in> {0x02, 0x06, 0x07}) \<and>
   (isRecoverable (parse_2 c e) \<longleftrightarrow> c \<in> {0x02, 0x06, 0x07}) \<and>
   code (parse_1 c e) = c \<and> code (parse_2 c e) = c \<and>
   (catalog_lookup CIP_ERROR_CODES_1 c = None \<longrightarrow>
      name (parse_1 c e) = ''UnknownError'' \<and>
      description (parse_1 c e) = unknown_description_1 c) \<and>
   (catalog_lookup CIP_ERROR_CODES_2 c = None \<longrightarrow>
      name (parse_2 c e) = ''UnknownError'' \<and>
      description (parse_2 c e) = unknown_description_2 c)"
  by (simp add: parse_1_def parse_2_def parse_with_def Let_def isRecoverableError_def)

theorem parse_recoverable_and_unknown_witness:
  "catalog_lookup CIP_ERROR_CODES_1 0x30 = None \<and>
   catalog_lookup CIP_ERROR_CODES_2 0x30 = None \<and>
   name (parse_1 0x30 0) = ''UnknownError'' \<and> code (parse_1 0x30 0) = 0x30 \<and>
   name (parse_2 0x30 0) = ''UnknownError'' \<and> code (parse_2 0x30 0) = 0x30 \<and>
   description (parse_2 0x30 0) = ''Unknown error (Code: 0x30)'' \<and>
   \<not> isRecoverable (parse_1 0x30 0) \<and> \<not> isRecoverable (parse_2 0x30 0)"
proof -
  have h1: "catalog_lookup CIP_ERROR_CODES_1 0x30 = None" by code_simp
  have h2: "catalog_lookup CIP_ERROR_CODES_2 0x30 = None" by code_simp
  have h3: "unknown_description_2 0x30 = ''Unknown error (Code: 0x30)''" by code_simp
  from parse_recoverable_and_unknown [of "0x30" 0] h1 h2 h3 show ?thesis by simp
qed

subsection \<open>Object paths\<close>

lemmas path_defs = buildObjectPath_def validateId_def or_else_def push_segment_def present_def
  Buffer_from_def PATH_SEGMENTS_CLASS_def PATH_SEGMENTS_INSTANCE_def PATH_SEGMENTS_ATTRIBUTE_def

text \<open>
  C2. The claim: a call in which some present argument is not an integer in [0,65535]
  fails with a ValidationError naming the field, so \<open>buildObjectPath(1,70000,3)\<close>
  fails. The code validates with \<open>validateId(classId) || validateId(instanceId) ||
  validateId(attributeId)\<close>, which stops at the first valid id:
  \<open>buildObjectPath(1,70000,3)\<close> returns the path \<open>[0x20,1,0x24,0x70,0x30,3]\<close>
  (70000 is stored modulo 256), while \<open>buildObjectPath(-1,2,3)\<close> fails on the class id.
\<close>

theorem buildObjectPath_unvalidated_instance:
  "buildObjectPath (JNum (Finite 1)) (JNum (Finite 70000)) (JNum (Finite 3))
     = Inr [0x20, 1, 0x24, 0x70, 0x30, 3] \<and>
   buildObjectPath (JNum (Finite (- 1))) (JNum (Finite 2)) (JNum (Finite 3))
     = Inl (InvalidId ''Class'')"
  by (simp add: path_defs trunc_def)

lemma trunc_of_int [simp]: "trunc (of_int n) = n"
  by (simp add: trunc_def)

lemma validateId_valid:
  "0 \<le> n \<Longrightarrow> n \<le> 65535 \<Longrightarrow> validateId (JNum (Finite (of_int n))) nm = Inr True"
  by (simp add: validateId_def)

lemma validateId_absent: "\<not> present x \<Longrightarrow> validateId x nm = Inr False"
  by (auto simp: validateId_def present_def)

text \<open>
  C7. A path returned by \<open>buildObjectPath\<close> is, for each present id in the order
  class, instance, attribute, the segment-type byte (0x20, 0x24, 0x30) followed by the
  byte stored for the id; without any identifier the call fails MissingIdentifier; with
  at least one identifier, and every present one an integer in [0,65535], the call
  returns a path; the byte stored for such an id \<open>n\<close> is \<open>n\<close> modulo 256.
\<close>

theorem buildObjectPath_segments:
  "(\<forall>path. buildObjectPath c i a = Inr path \<longrightarrow>
      path = (if present c then [0x20, ToUint8 (ToNumber c)] else [])
           @ (if present i then [0x24, ToUint8 (ToNumber i)] else [])
           @ (if present a then [0x30, ToUint8 (ToNumber a)] else [])) \<and>
   (\<not> present c \<and> \<not> present i \<and> \<not> present a \<longrightarrow>
      buildObjectPath c i a = Inl MissingIdentifier) \<and>
   ((\<forall>x \<in> {c, i, a}. present x \<longrightarrow>
        (\<exists>n. 0 \<le> n \<and> n \<le> 65535 \<and> x = JNum (Finite (of_int n)))) \<and>
    (present c \<or> present i \<or> present a) \<longrightarrow>
      (\<exists>path. buildObjectPath c i a = Inr path)) \<and>
   (0 \<le> n \<and> n \<le> 65535 \<longrightarrow> ToUint8 (ToNumber (JNum (Finite (of_int n)))) = word_of_int n)"
proof (intro conjI allI impI)
  fix path assume "buildObjectPath c i a = Inr path"
  then show "path = (if present c then [0x20, ToUint8 (ToNumber c)] else [])
           @ (if present i then [0x24, ToUint8 (ToNumber i)] else [])
           @ (if present a then [0x30, ToUint8 (ToNumber a)] else [])"
    by (auto simp: buildObjectPath_def push_segment_def Buffer_from_def
        PATH_SEGMENTS_CLASS_def PATH_SEGMENTS_INSTANCE_def PATH_SEGMENTS_ATTRIBUTE_def trunc_def
        split: sum.splits if_splits)
next
  assume "\<not> present c \<and> \<not> present i \<and> \<not> present a"
  then show "buildObjectPath c i a = Inl MissingIdentifier"
    by (simp add: buildObjectPath_def validateId_absent or_else_def)
next
  assume h: "(\<forall>x \<in> {c, i, a}. present x \<longrightarrow>
        (\<exists>n. 0 \<le> n \<and> n \<le> 65535 \<and> x = JNum (Finite (of_int n)))) \<and>
    (present c \<or> present i \<or> present a)"
  have v: "\<And>x nm. x \<in> {c, i, a} \<Longrightarrow> validateId x nm = Inr (present x)"
  proof -
    fix x nm assume "x \<in> {c, i, a}"
    with h have "present x \<longrightarrow> (\<exists>n. 0 \<le> n \<and> n \<le> 65535 \<and> x = JNum (Finite (of_int n)))"
      by blast
    then show "validateId x nm = Inr (present x)"
      by (cases "present x") (auto simp: validateId_valid validateId_absent)
  qed
  have vs: "validateId c ''Class'' = Inr (present c)"
    "validateId i ''Instance'' = Inr (present i)"
    "validateId a ''Attribute'' = Inr (present a)"
    by (simp_all add: v)
  from h have "present c \<or> present i \<or> present a" by simp
  then show "\<exists>path. buildObjectPath c i a = Inr path"
    unfolding buildObjectPath_def vs or_else_def
    by (cases "present c"; cases "present i"; cases "present a") simp_all
next
  show "ToUint8 (ToNumber (JNum (Finite (of_int n)))) = word_of_int n" by simp
qed

theorem buildObjectPath_segments_witness:
  "buildObjectPath (JNum (Finite 1)) (JNum (Finite 2)) (JNum (Finite 3))
     = Inr [0x20, 1, 0x24, 2, 0x30, 3] \<and>
   buildObjectPath (JNum (Finite 10)) JUndefined JUndefined = Inr [0x20, 10] \<and>
   buildObjectPath JUndefined JUndefined JUndefined = Inl MissingIdentifier"
proof -
  have p: "present (JNum (Finite 1))" "present (JNum (Finite 2))" "present (JNum (Finite 3))"
    "present (JNum (Finite 10))" "\<not> present JUndefined"
    by (simp_all add: present_def)
  have e1: "\<exists>path. buildObjectPath (JNum (Finite 1)) (JNum (Finite 2)) (JNum (Finite 3)) = Inr path"
    by (simp add: path_defs)
  have e2: "\<exists>path. buildObjectPath (JNum (Finite 10)) JUndefined JUndefined = Inr path"
    by (simp add: path_defs)
  from buildObjectPath_segments [of "JNum (Finite 1)" "JNum (Finite 2)" "JNum (Finite 3)" 0]
    e1 p
  have a: "buildObjectPath (JNum (Finite 1)) (JNum (Finite 2)) (JNum (Finite 3))
     = Inr [0x20, 1, 0x24, 2, 0x30, 3]"
    by (auto simp: trunc_def)
  from buildObjectPath_segments [of "JNum (Finite 10)" JUndefined JUndefined 0] e2 p
  have b: "buildObjectPath (JNum (Finite 10)) JUndefined JUndefined = Inr [0x20, 10]"
    by (auto simp: trunc_def)
  from buildObjectPath_segments [of JUndefined JUndefined JUndefined 0] p
  have c: "buildObjectPath JUndefined JUndefined JUndefined = Inl MissingIdentifier"
    by simp
  from a b c show ?thesis by simp
qed

subsection \<open>Encoding\<close>

lemmas type_defs = CIP_BOOL_def CIP_SINT_def CIP_INT_def CIP_DINT_def CIP_REAL_def
  CIP_STRING_def CIP_ARRAY_def CIP_STRUCT_def CIP_LREAL_def

lemma writeInt32BE_cases:
  "writeInt32BE buf v off = Inl RangeError \<or> (\<exists>bs. writeInt32BE buf v off = Inr bs)"
  by (simp add: writeInt32BE_def Let_def)

lemma writeInt32LE_cases:
  "writeInt32LE buf v off = Inl RangeError \<or> (\<exists>bs. writeInt32LE buf v off = Inr bs)"
  by (simp add: writeInt32LE_def Let_def)

text \<open>
  C4 (as amended). \<open>encodeData\<close> fails UnsupportedDataType exactly for the type codes
  it has no case for, that is every code other than BOOL 0xC1, SINT 0xC2, INT 0xC3,
  DINT 0xC4, REAL 0xCA and STRING 0xDA: the codes outside the registry and also the
  registry's LREAL, ARRAY and STRUCT. For BOOL, SINT, INT and STRING it always returns
  bytes; for DINT and REAL it returns bytes or fails with a RangeError.
\<close>

theorem encodeData_unsupported_iff:
  "(encodeData v ty be = Inl (UnsupportedDataType (type_code ty))
      \<longleftrightarrow> type_code ty \<notin> {0xC1, 0xC2, 0xC3, 0xC4, 0xCA, 0xDA}) \<and>
   (\<forall>c. encodeData v ty be = Inl (UnsupportedDataType c) \<longrightarrow> c = type_code ty) \<and>
   (type_code ty \<in> {0xC1, 0xC2, 0xC3, 0xDA} \<longrightarrow> (\<exists>bs. encodeData v ty be = Inr bs)) \<and>
   (type_code ty \<in> {0xC4, 0xCA} \<longrightarrow>
      encodeData v ty be = Inl RangeError \<or> (\<exists>bs. encodeData v ty be = Inr bs))"
  using writeInt32BE_cases [of "Buffer_alloc 4" "number v" 0]
    writeInt32LE_cases [of "Buffer_alloc 4" "number v" 0]
  by (auto simp: encodeData_def Let_def type_defs)

theorem encodeData_unsupported_iff_witness:
  "encodeData (js_int 123) (CipType 0xFFFF None) False = Inl (UnsupportedDataType 0xFFFF) \<and>
   encodeData (js_int 1) CIP_ARRAY False = Inl (UnsupportedDataType 0xE0) \<and>
   encodeData (js_int 1) CIP_STRUCT False = Inl (UnsupportedDataType 0xE1) \<and>
   (\<exists>bs. encodeData (js_bool True) CIP_BOOL False = Inr bs)"
  using encodeData_unsupported_iff [of "js_int 123" "CipType 0xFFFF None" False]
    encodeData_unsupported_iff [of "js_int 1" CIP_ARRAY False]
    encodeData_unsupported_iff [of "js_int 1" CIP_STRUCT False]
    encodeData_unsupported_iff [of "js_bool True" CIP_BOOL False]
  by (simp add: type_defs)

text \<open>
  C4 as stated fails: LREAL (0xCB) is a type of the registry, and \<open>encodeData\<close>
  rejects it as unsupported.
\<close>

theorem encodeData_LREAL_counterexample:
  "find_type 0xCB = Some CIP_LREAL \<and>
   encodeData (js_int 1) CIP_LREAL False = Inl (UnsupportedDataType 0xCB)"
  by (simp add: find_type_def CIP_DATA_TYPES_def encodeData_def type_defs)

subsection \<open>Round trips\<close>

lemma ToInt32_of_int:
  "- 2147483648 \<le> v \<Longrightarrow> v \<le> 2147483647 \<Longrightarrow> ToInt32 (Finite (of_int v)) = v"
  by (simp add: sint_sbintrunc' signed_take_bit_int_eq_self)

lemma unat_low_byte: "unat (word_of_int (k AND 0xFF) :: byte) = nat (k mod 256)"
proof -
  have "k AND 0xFF = take_bit 8 k"
    by (simp add: take_bit_eq_mask mask_eq_exp_minus_1)
  then show ?thesis
    by (simp add: unat_eq_nat_uint uint_word_of_int take_bit_eq_mod)
qed

lemma unat_byte_of: "unat (byte_of n) = n mod 256"
  by (simp add: byte_of_def unat_of_nat)

lemma ToUint32_of_int: "ToUint32 (Finite (of_int v)) = nat (v mod 4294967296)"
  by (simp add: unat_eq_nat_uint uint_word_of_int take_bit_eq_mod)

lemma recompose32:
  assumes "(u::nat) < 4294967296"
  shows "(u div 16777216) mod 256 * 16777216 + (u div 65536) mod 256 * 65536
       + (u div 256) mod 256 * 256 + u mod 256 = u"
proof -
  define q1 where "q1 = u div 256"
  define q2 where "q2 = q1 div 256"
  define q3 where "q3 = q2 div 256"
  have d2: "u div 65536 = q2"
    using div_mult2_eq [of u 256 256] by (simp add: q1_def q2_def)
  have d3: "u div 16777216 = q3"
    using div_mult2_eq [of u 65536 256] by (simp add: d2 q3_def)
  have "q3 < 256"
    using assms unfolding d3 [symmetric] by (simp add: less_mult_imp_div_less)
  then have m3: "q3 mod 256 = q3" by simp
  have e1: "u = 256 * q1 + u mod 256" by (simp add: q1_def)
  have e2: "q1 = 256 * q2 + q1 mod 256" by (simp add: q2_def)
  have e3: "q2 = 256 * q3 + q2 mod 256" by (simp add: q3_def)
  from e1 e2 e3 have "q3 * 16777216 + q2 mod 256 * 65536 + q1 mod 256 * 256 + u mod 256 = u"
    by linarith
  then show ?thesis
    by (simp only: d2 d3 m3 q1_def [symmetric])
qed

lemma split16: "((v::int) div 256) mod 256 * 256 + v mod 256 = v mod 65536"
  using zmod_zmult2_eq [of 256 v 256] by simp

lemma mod_neg16:
  assumes "- 32768 \<le> (v::int)" "v < 0"
  shows "v mod 65536 = v + 65536"
proof -
  have "v mod 65536 = (v + 65536) mod 65536" by (simp only: mod_add_self2)
  also have "\<dots> = v + 65536" by (rule mod_pos_pos_trivial) (use assms in simp_all)
  finally show ?thesis .
qed

lemma mod_neg32:
  assumes "- 2147483648 \<le> (v::int)" "v < 0"
  shows "v mod 4294967296 = v + 4294967296"
proof -
  have "v mod 4294967296 = (v + 4294967296) mod 4294967296" by (simp only: mod_add_self2)
  also have "\<dots> = v + 4294967296" by (rule mod_pos_pos_trivial) (use assms in simp_all)
  finally show ?thesis .
qed

lemma signed16:
  assumes "- 32768 \<le> v" "v \<le> 32767"
  shows "to_signed 16 (nat ((v div 256) mod 256) * 256 + nat (v mod 256)) = v"
proof -
  have "0 \<le> (v div 256) mod 256" "0 \<le> v mod 256" by simp_all
  then have "int (nat ((v div 256) mod 256) * 256 + nat (v mod 256)) = v mod 65536"
    using split16 [of v] by simp
  then have "nat (int (nat ((v div 256) mod 256) * 256 + nat (v mod 256))) = nat (v mod 65536)"
    by (simp only:)
  then have n: "nat ((v div 256) mod 256) * 256 + nat (v mod 256) = nat (v mod 65536)"
    by (simp only: nat_int)
  have "to_signed 16 (nat (v mod 65536)) = v"
  proof (cases "0 \<le> v")
    case True
    with assms have "v mod 65536 = v" by simp
    with True assms show ?thesis by (simp add: to_signed_def)
  next
    case False
    with assms have "v mod 65536 = v + 65536" by (simp add: mod_neg16)
    with False assms show ?thesis by (simp add: to_signed_def)
  qed
  then show ?thesis by (simp only: n)
qed

lemma signed16':
  "- 32768 \<le> v \<Longrightarrow> v \<le> 32767 \<Longrightarrow>
   to_signed 16 (nat (v mod 256) + nat ((v div 256) mod 256) * 256) = v"
  using signed16 [of v] by (simp add: add.commute)

lemma signed32:
  assumes "- 2147483648 \<le> v" "v \<le> 2147483647"
  shows "to_signed 32 (nat (v mod 4294967296)) = v"
proof (cases "0 \<le> v")
  case True
  with assms have "v mod 4294967296 = v" by simp
  with True assms show ?thesis by (simp add: to_signed_def)
next
  case False
  with assms have "v mod 4294967296 = v + 4294967296" by (simp add: mod_neg32)
  with False assms show ?thesis by (simp add: to_signed_def)
qed


lemma decode_LREAL: "decode 0xCB bs be = Inr (VBuffer bs)"
  by (subst decode.simps) (simp add: find_type_def CIP_DATA_TYPES_def type_defs)

lemma decode_INT:
  "decode 0xC3 bs be =
     map_result VInt (if be then readInt16BE bs 0 else readInt16LE bs 0)"
  by (subst decode.simps) (simp add: find_type_def CIP_DATA_TYPES_def type_defs)

lemma decode_DINT:
  "decode 0xC4 bs be =
     map_result VInt (if be then readInt32BE bs 0 else readInt32LE bs 0)"
  by (subst decode.simps) (simp add: find_type_def CIP_DATA_TYPES_def type_defs)

lemma round_trip_INT:
  assumes "number x = Finite (of_int v)" "- 32768 \<le> v" "v \<le> 32767"
  shows "round_trip CIP_INT x be = Inr (VInt v)"
proof -
  from assms have "- 2147483648 \<le> v" "v \<le> 2147483647" by linarith+
  then have t: "ToInt32 (number x) = v"
    using assms(1) by (simp add: ToInt32_of_int del: ToInt32.simps)
  have d: "drop_bit 8 v = v div 256" by (simp add: drop_bit_eq_div)
  show ?thesis
    using assms(2,3)
    by (simp add: round_trip_def encodeData_def Let_def type_defs t d decode_INT
        readInt16BE_def readInt16LE_def readUInt16BE_def readUInt16LE_def map_result_def
        unat_low_byte signed16 signed16')
qed

lemma round_trip_DINT:
  assumes "number x = Finite (of_int v)" "- 2147483648 \<le> v" "v \<le> 2147483647"
  shows "round_trip CIP_DINT x be = Inr (VInt v)"
proof -
  define u where "u = nat (v mod 4294967296)"
  have u: "u < 4294967296" by (simp add: u_def)
  have r1: "u div 16777216 mod 256 * 16777216 + u div 65536 mod 256 * 65536
       + u div 256 mod 256 * 256 + u mod 256 = u"
    using recompose32 [OF u] .
  have r2: "u mod 256 + u div 256 mod 256 * 256 + u div 65536 mod 256 * 65536
       + u div 16777216 mod 256 * 16777216 = u"
    using r1 by (simp only: ac_simps)
  have s: "to_signed 32 u = v" unfolding u_def using assms(2,3) by (rule signed32)
  have rng: "\<not> num_greater (number x) 0x7FFFFFFF" "\<not> num_less (number x) (- 0x80000000)"
    using assms by simp_all
  show ?thesis
    using rng
    by (simp add: round_trip_def encodeData_def Let_def type_defs decode_DINT
        writeInt32BE_def writeInt32LE_def Buffer_alloc_def write_at_def assms(1)
        ToUint32_of_int u_def [symmetric] readInt32BE_def readInt32LE_def readUInt32BE_def
        readUInt32LE_def map_result_def unat_byte_of r1 r2 s del: ToUint32.simps)
qed


text \<open>
  C5 (as amended). For every value whose number is the integer \<open>v\<close> and for both
  values of the endianness flag, \<open>decode(INT, encodeData(v, INT, be), be)\<close> is \<open>v\<close>
  when \<open>v\<close> is a signed 16-bit integer, and \<open>decode(DINT, encodeData(v, DINT, be), be)\<close>
  is \<open>v\<close> when \<open>v\<close> is a signed 32-bit integer.
\<close>

theorem round_trip_INT_DINT:
  "number x = Finite (of_int v) \<Longrightarrow>
   (- 32768 \<le> v \<and> v \<le> 32767 \<longrightarrow> round_trip CIP_INT x be = Inr (VInt v)) \<and>
   (- 2147483648 \<le> v \<and> v \<le> 2147483647 \<longrightarrow> round_trip CIP_DINT x be = Inr (VInt v))"
  by (simp add: round_trip_INT round_trip_DINT)

theorem round_trip_INT_DINT_witness:
  "number (js_int (- 2)) = Finite (of_int (- 2)) \<and>
   round_trip CIP_INT (js_int (- 2)) True = Inr (VInt (- 2)) \<and>
   round_trip CIP_DINT (js_int (- 2)) True = Inr (VInt (- 2)) \<and>
   round_trip CIP_INT (js_int (- 2)) False = Inr (VInt (- 2)) \<and>
   round_trip CIP_DINT (js_int (- 2)) False = Inr (VInt (- 2)) \<and>
   encodeData (js_int (- 2)) CIP_INT True = Inr [0xFF, 0xFE]"
proof -
  have n: "number (js_int (- 2)) = Finite (of_int (- 2))" by (simp add: js_int_def)
  have e: "encodeData (js_int (- 2)) CIP_INT True = Inr [0xFF, 0xFE]"
    by (simp add: encodeData_def js_int_def type_defs trunc_def)
  from round_trip_INT_DINT [OF n, of True] round_trip_INT_DINT [OF n, of False] n e
  show ?thesis by simp
qed

text \<open>
  C5 as stated fails for LREAL: \<open>encodeData\<close> rejects the type, so the composition
  fails for either endianness; and \<open>decode\<close> has no case for LREAL either: it returns
  the eight bytes (here those of the double 1.0, little-endian) as a raw Buffer.
\<close>

theorem round_trip_LREAL_counterexample:
  "round_trip CIP_LREAL (js_int 1) False = Inl (UnsupportedDataType 0xCB) \<and>
   round_trip CIP_LREAL (js_int 1) True = Inl (UnsupportedDataType 0xCB) \<and>
   decode (type_code CIP_LREAL) [0, 0, 0, 0, 0, 0, 0xF0, 0x3F] False
     = Inr (VBuffer [0, 0, 0, 0, 0, 0, 0xF0, 0x3F])"
  by (simp add: round_trip_def encodeData_def decode_LREAL type_defs)

subsection \<open>Decoding compound values\<close>



lemma decode_ARRAY: "decode 0xE0 d be = map_result VArray (decodeArray d be)"
  by (subst decode.simps) (simp add: find_type_def CIP_DATA_TYPES_def type_defs)




lemma decodeArray_long:
  "4 \<le> length d \<Longrightarrow>
   decodeArray d be =
     for_each (\<lambda>i. decode (unat (d ! 0) * 256 + unat (d ! 1))
                  (slice d (4 + i * size_by_key (unat (d ! 0) * 256 + unat (d ! 1)))
                     (4 + i * size_by_key (unat (d ! 0) * 256 + unat (d ! 1))
                      + size_by_key (unat (d ! 0) * 256 + unat (d ! 1)))) be)
       [0..<unat (d ! 2) * 256 + unat (d ! 3)]"
  by (subst decodeArray.simps) (simp add: readUInt16BE_def Let_def numeral_3_eq_3)











text \<open>
  The size looked up for an element or member is \<open>CIP_DATA_TYPES[code]?.size || 0\<close>.
  The table is keyed by the names of the types, and the key looked up is the decimal
  string of a number, so the size is 0 for every code; an ARRAY of one INT fails
  with a RangeError, the INT being read from an empty slice.
\<close>

lemma digit_char_decimal: "d < 10 \<Longrightarrow> digit_char d \<in> set ''0123456789''"
proof -
  assume "d < 10"
  then have "d \<in> {0, 1, 2, 3, 4, 5, 6, 7, 8, 9}" by auto
  then show ?thesis by (auto simp: digit_char_def)
qed

lemma digits_of_decimal: "set (digits_of 10 n) \<subseteq> set ''0123456789''"
proof (induction "10::nat" n rule: digits_of.induct)
  case (1 n)
  show ?case
  proof (cases "n < 10")
    case True
    then show ?thesis
      using digit_char_decimal [of n] by (subst digits_of.simps) simp
  next
    case False
    have "n mod 10 < 10" by simp
    then have "digit_char (n mod 10) \<in> set ''0123456789''" by (rule digit_char_decimal)
    with False 1 show ?thesis by (subst digits_of.simps) simp
  qed
qed

lemma size_by_key_0: "size_by_key k = 0"
proof -
  have "map_of CIP_DATA_TYPES (digits_of 10 k) = None"
    using digits_of_decimal [of k]
    by (auto simp: CIP_DATA_TYPES_def)
  then show ?thesis by (simp add: size_by_key_def int_toString_def)
qed

lemma decode_ARRAY_of_INT:
  "decode 0xE0 [0x00, 0xC3, 0x00, 0x01, 0x34, 0x12] False = Inl RangeError"
  by (simp add: decode_ARRAY decodeArray_long size_by_key_0 decode_INT slice_def
      readInt16LE_def readUInt16LE_def map_result_def)

subsection \<open>Attribute responses\<close>

text \<open>
  Where no global \<open>classId\<close> is defined, every call of \<open>parseAttributeResponse\<close>
  throws a ReferenceError, whatever the response.
\<close>

lemma parseAttributeResponse_unbound:
  "g ''classId'' = None \<Longrightarrow>
   parseAttributeResponse p g r be = Inl (ReferenceError ''classId'')"
  by (simp add: parseAttributeResponse_def resolve_def)

text \<open>
  The statements after the first \<open>if\<close> do what is expected of the function: a value
  that is not a Buffer and a response of fewer than 4 bytes fail, and a response of status
  0 gives the 16-bit big-endian type code at offset 2 with the decoded bytes from offset 4.
\<close>

lemma parse_attribute_body_cases:
  "parse_attribute_body p NotABuffer be = Inl ResponseNotBuffer"
  "length b < 4 \<Longrightarrow> parse_attribute_body p (Buf b) be = Inl (InvalidResponseLength (length b))"
  "4 \<le> length b \<Longrightarrow> b ! 0 = 0 \<Longrightarrow>
   parse_attribute_body p (Buf b) be =
     (case decode (unat (b ! 2) * 256 + unat (b ! 3)) (drop 4 b) be of
        Inl e \<Rightarrow> Inl (Decode_Error e (toString_hex (drop 4 b)))
      | Inr v \<Rightarrow> Inr (AttributeValue (unat (b ! 2) * 256 + unat (b ! 3)) v))"
  by (simp_all add: parse_attribute_body_def readUInt8_def readUInt16BE_def slice_def Let_def)

text \<open>
  C1. The claim: a Buffer of at least 4 bytes with status 0 gives \<open>{dataType, value}\<close>,
  a shorter one fails "Invalid response length", a value that is not a Buffer fails too.
  In the repository nothing defines \<open>classId\<close>, and the function reads it first: for
  the response \<open>[0x00,0x00,0x00,0xC3,0x34,0x12]\<close> (an INT of value 0x1234), for a
  3-byte response and for a value that is not a Buffer the call throws the ReferenceError.
\<close>

theorem parseAttributeResponse_ReferenceError:
  "parseAttributeResponse parse_2 (\<lambda>x. None) (Buf [0x00, 0x00, 0x00, 0xC3, 0x34, 0x12]) False
     = Inl (ReferenceError ''classId'') \<and>
   parseAttributeResponse parse_2 (\<lambda>x. None) (Buf [0x00, 0x01, 0x02]) False
     = Inl (ReferenceError ''classId'') \<and>
   parseAttributeResponse parse_2 (\<lambda>x. None) NotABuffer False
     = Inl (ReferenceError ''classId'')"
  by (simp add: parseAttributeResponse_def resolve_def)

lemma parse_attribute_body_example:
  "parse_attribute_body parse_2 (Buf [0x00, 0x00, 0x00, 0xC3, 0x34, 0x12]) False
     = Inr (AttributeValue 0xC3 (VInt 0x1234))"
  by (simp add: parse_attribute_body_cases decode_INT readInt16LE_def readUInt16LE_def
      map_result_def to_signed_def)

subsection \<open>Encapsulation\<close>

lemma recompose16:
  assumes "(n::nat) < 65536"
  shows "n mod 256 + n div 256 mod 256 * 256 = n"
proof -
  have "n div 256 < 256" using assms by (simp add: less_mult_imp_div_less)
  then have "n div 256 mod 256 = n div 256" by simp
  then show ?thesis by simp
qed

lemma recompose32_le:
  assumes "(u::nat) < 4294967296"
  shows "u mod 256 + u div 256 mod 256 * 256 + u div 65536 mod 256 * 65536
       + u div 16777216 mod 256 * 16777216 = u"
  using recompose32 [OF assms] by (simp only: ac_simps)

lemma Buffer_alloc_24:
  "Buffer_alloc 24 = [0, 0, 0, 0, 0, 0, 0, 0, 0, 0, 0, 0, 0, 0, 0, 0, 0, 0, 0, 0, 0, 0, 0, 0]"
  by (simp add: Buffer_alloc_def numeral_eq_Suc)

lemma length_8:
  "length (xs::'a list) = 8 \<Longrightarrow> \<exists>a b c d e f g h. xs = [a, b, c, d, e, f, g, h]"
  by (auto simp: numeral_eq_Suc length_Suc_conv)

lemma byte_of_0: "byte_of 0 = 0"
  by (simp add: byte_of_def)

lemma buildEncapMessage_Inr:
  assumes "buildEncapMessage this command data = Inr msg"
    and "senderContext this = [a, b, c, d, e, f, g, h]"
  shows "msg = [byte_of (nat command), byte_of (nat command div 256),
                byte_of (length data), byte_of (length data div 256),
                byte_of (nat (client_sessionHandle this)),
                byte_of (nat (client_sessionHandle this) div 256),
                byte_of (nat (client_sessionHandle this) div 65536),
                byte_of (nat (client_sessionHandle this) div 16777216),
                0, 0, 0, 0, a, b, c, d, e, f, g, h, 0, 0, 0, 0] @ data"
    and "0 \<le> command" and "command \<le> 65535" and "length data \<le> 65535"
    and "0 \<le> client_sessionHandle this" and "client_sessionHandle this \<le> 4294967295"
  using assms
  by (simp_all add: buildEncapMessage_def Buffer_alloc_24 writeUInt16LE_def writeUInt32LE_def
      write_at_def copy_into_def Let_def byte_of_0 split: if_splits)


lemma buildEncapMessage_succeeds:
  assumes "0 \<le> bit_or (bit_or (owner (connectionParams this)) (conn_type (connectionParams this)))
                  (priority (connectionParams this))"
    and "bit_or (bit_or (owner (connectionParams this)) (conn_type (connectionParams this)))
                  (priority (connectionParams this)) \<le> 65535"
    and "0 \<le> command" "command \<le> 65535" "length data \<le> 65535"
    and "0 \<le> client_sessionHandle this" "client_sessionHandle this \<le> 4294967295"
  shows "\<exists>msg. buildEncapMessage this command data = Inr msg"
  using assms
  by (simp add: buildEncapMessage_def Buffer_alloc_24 writeUInt16LE_def writeUInt32LE_def
      write_at_def Let_def)

text \<open>
  C8. For every command, payload, session handle and 8-byte sender context: a message
  built by \<open>buildEncapMessage\<close> has, read back at the documented offsets, the command
  (u16 little-endian at 0), the payload's byte length (u16 at 2), the session handle
  (u32 at 4) and the sender context (bytes 12 to 19) that were supplied, status 0 at 8
  and the payload after the 24 bytes of the header. A message is built whenever the
  command and the payload length fit 16 bits and the session handle fits 32 bits (and the
  connection parameters combine to a 16-bit value, as the default ones do); otherwise a
  write throws a RangeError.
\<close>

theorem buildEncapMessage_fields:
  "length (senderContext this) = 8 \<Longrightarrow>
   (\<forall>msg. buildEncapMessage this command data = Inr msg \<longrightarrow>
      map_result int (readUInt16LE msg 0) = Inr command \<and>
      readUInt16LE msg 2 = Inr (length data) \<and>
      map_result int (readUInt32LE msg 4) = Inr (client_sessionHandle this) \<and>
      readUInt32LE msg 8 = Inr 0 \<and>
      slice msg 12 20 = senderContext this \<and>
      drop 24 msg = data) \<and>
   (0 \<le> command \<and> command \<le> 65535 \<and> length data \<le> 65535 \<and>
    0 \<le> client_sessionHandle this \<and> client_sessionHandle this \<le> 4294967295 \<and>
    bit_or (bit_or (owner (connectionParams this)) (conn_type (connectionParams this)))
           (priority (connectionParams this)) \<in> {0..65535} \<longrightarrow>
      (\<exists>msg. buildEncapMessage this command data = Inr msg))"
proof (intro conjI allI impI)
  fix msg
  assume len: "length (senderContext this) = 8"
    and b: "buildEncapMessage this command data = Inr msg"
  from len obtain a b' c d e f g h where sc: "senderContext this = [a, b', c, d, e, f, g, h]"
    using length_8 by blast
  note m = buildEncapMessage_Inr [OF b sc]
  from m(2-6) have c16: "nat command < 65536" and l16: "length data < 65536"
    and h32: "nat (client_sessionHandle this) < 4294967296"
    by linarith+
  from m(1,2) show "map_result int (readUInt16LE msg 0) = Inr command"
    using recompose16 [OF c16]
    by (simp add: readUInt16LE_def map_result_def unat_byte_of)
  from m(1) show "readUInt16LE msg 2 = Inr (length data)"
    using recompose16 [OF l16]
    by (simp add: readUInt16LE_def unat_byte_of)
  from m(1,5) show "map_result int (readUInt32LE msg 4) = Inr (client_sessionHandle this)"
    using recompose32_le [OF h32]
    by (simp add: readUInt32LE_def map_result_def unat_byte_of)
  from m(1) show "readUInt32LE msg 8 = Inr 0"
    by (simp add: readUInt32LE_def)
  from m(1) show "slice msg 12 20 = senderContext this"
    by (simp add: slice_def sc)
  from m(1) show "drop 24 msg = data"
    by simp
next
  assume "0 \<le> command \<and> command \<le> 65535 \<and> length data \<le> 65535 \<and>
    0 \<le> client_sessionHandle this \<and> client_sessionHandle this \<le> 4294967295 \<and>
    bit_or (bit_or (owner (connectionParams this)) (conn_type (connectionParams this)))
           (priority (connectionParams this)) \<in> {0..65535}"
  then show "\<exists>msg. buildEncapMessage this command data = Inr msg"
    by (intro buildEncapMessage_succeeds) simp_all
qed


lemma default_params_word: "bit_or (bit_or 0x0000 0x4000) 0x0800 = 0x4800"
  by (simp add: bit_or_def trunc_def)

theorem buildEncapMessage_fields_witness:
  "buildEncapMessage
     \<lparr> client_sessionHandle = 0x12345678,
       senderContext = [0x41, 0x42, 0x43, 0x44, 0x45, 0x46, 0x47, 0x48],
       connectionParams = default_connectionParams \<rparr>
     0x0065 [0x54, 0x65, 0x73, 0x74]
   = Inr [0x65, 0x00, 0x04, 0x00, 0x78, 0x56, 0x34, 0x12, 0, 0, 0, 0,
          0x41, 0x42, 0x43, 0x44, 0x45, 0x46, 0x47, 0x48, 0, 0, 0, 0,
          0x54, 0x65, 0x73, 0x74] \<and>
   readUInt16LE [0x65, 0x00, 0x04, 0x00, 0x78, 0x56, 0x34, 0x12, 0, 0, 0, 0,
          0x41, 0x42, 0x43, 0x44, 0x45, 0x46, 0x47, 0x48, 0, 0, 0, 0,
          0x54, 0x65, 0x73, 0x74] 0 = Inr 0x65 \<and>
   readUInt16LE [0x65, 0x00, 0x04, 0x00, 0x78, 0x56, 0x34, 0x12, 0, 0, 0, 0,
          0x41, 0x42, 0x43, 0x44, 0x45, 0x46, 0x47, 0x48, 0, 0, 0, 0,
          0x54, 0x65, 0x73, 0x74] 2 = Inr 4 \<and>
   readUInt32LE [0x65, 0x00, 0x04, 0x00, 0x78, 0x56, 0x34, 0x12, 0, 0, 0, 0,
          0x41, 0x42, 0x43, 0x44, 0x45, 0x46, 0x47, 0x48, 0, 0, 0, 0,
          0x54, 0x65, 0x73, 0x74] 4 = Inr 0x12345678 \<and>
   slice [0x65, 0x00, 0x04, 0x00, 0x78, 0x56, 0x34, 0x12, 0, 0, 0, 0,
          0x41, 0x42, 0x43, 0x44, 0x45, 0x46, 0x47, 0x48, 0, 0, 0, 0,
          0x54, 0x65, 0x73, 0x74] 12 20 = [0x41, 0x42, 0x43, 0x44, 0x45, 0x46, 0x47, 0x48]"
proof -
  let ?c = "\<lparr> client_sessionHandle = 0x12345678,
       senderContext = [0x41, 0x42, 0x43, 0x44, 0x45, 0x46, 0x47, 0x48],
       connectionParams = default_connectionParams \<rparr>"
  let ?m = "[0x65, 0x00, 0x04, 0x00, 0x78, 0x56, 0x34, 0x12, 0, 0, 0, 0,
          0x41, 0x42, 0x43, 0x44, 0x45, 0x46, 0x47, 0x48, 0, 0, 0, 0,
          0x54, 0x65, 0x73, 0x74] :: buffer"
  have len: "length (senderContext ?c) = 8" by simp
  have e: "buildEncapMessage ?c 0x0065 [0x54, 0x65, 0x73, 0x74] = Inr ?m"
    by (simp add: buildEncapMessage_def Buffer_alloc_24 writeUInt16LE_def writeUInt32LE_def
        write_at_def copy_into_def Let_def byte_of_def default_connectionParams_def
        default_params_word)
  from buildEncapMessage_fields [OF len, of "0x0065" "[0x54, 0x65, 0x73, 0x74]"] e
  have "map_result int (readUInt16LE ?m 0) = Inr 0x0065 \<and>
      readUInt16LE ?m 2 = Inr (length [0x54, 0x65, 0x73, 0x74 :: byte]) \<and>
      map_result int (readUInt32LE ?m 4) = Inr (client_sessionHandle ?c) \<and>
      slice ?m 12 20 = senderContext ?c"
    by blast
  then show ?thesis
    using e by (simp add: map_result_def readUInt16LE_def readUInt32LE_def)
qed

subsection \<open>Secure data\<close>

lemma strict_equal_PT2PT: "strict_equal t TYPE_PT2PT \<longleftrightarrow> t = TYPE_PT2PT"
  by (cases t) (auto simp: TYPE_PT2PT_def)

lemma increment_write:
  "writeUInt32LE buf (int (increment n)) off = Inr b \<Longrightarrow> increment n = n + 1"
  by (auto simp: writeUInt32LE_def increment_def split: if_splits)

lemma writeUInt32LE_alloc:
  "writeUInt32LE (Buffer_alloc 4) (int n) 0 = Inr b \<Longrightarrow>
   b = [byte_of n, byte_of (n div 256), byte_of (n div 65536), byte_of (n div 16777216)]
   \<and> n < 4294967296"
  by (auto simp: writeUInt32LE_def Buffer_alloc_def write_at_def split: if_splits)

lemma writeUInt32LE_alloc_ok:
  "n < 4294967296 \<Longrightarrow>
   writeUInt32LE (Buffer_alloc 4) (int n) 0
     = Inr [byte_of n, byte_of (n div 256), byte_of (n div 65536), byte_of (n div 16777216)]"
  by (simp add: writeUInt32LE_def Buffer_alloc_def write_at_def)

lemma read_sequence_bytes:
  "n < 4294967296 \<Longrightarrow>
   readUInt32LE [byte_of n, byte_of (n div 256), byte_of (n div 65536),
                 byte_of (n div 16777216)] 0 = Inr n"
  using recompose32_le [of n] by (simp add: readUInt32LE_def unat_byte_of)

lemma sendSecureData_sent:
  assumes "sendSecureData env this data = (Inr p, this')"
  shows "connectionType this = TYPE_PT2PT" and "sessionActive this"
    and "sequenceNumber this' = sequenceNumber this + 1"
    and "sequenceNumber this' < 4294967296"
    and "this' = this\<lparr> sequenceNumber := sequenceNumber this + 1, lastActivity := now env \<rparr>"
    and "\<exists>header transmit. buildEncapHeader env = Some header \<and> send env = Some transmit \<and>
           transmit p \<and>
           p = header @ data
               @ [byte_of (sequenceNumber this'), byte_of (sequenceNumber this' div 256),
                  byte_of (sequenceNumber this' div 65536),
                  byte_of (sequenceNumber this' div 16777216)]
               @ take 8 (hmac_sha256 env (sessionNonce this)
                   (data @ [byte_of (sequenceNumber this'), byte_of (sequenceNumber this' div 256),
                            byte_of (sequenceNumber this' div 65536),
                            byte_of (sequenceNumber this' div 16777216)]))"
proof -
  from assms have pt: "strict_equal (connectionType this) TYPE_PT2PT" and act: "sessionActive this"
    by (auto simp: sendSecureData_def split: if_splits)
  from pt show "connectionType this = TYPE_PT2PT" by (simp add: strict_equal_PT2PT)
  from act show "sessionActive this" .
  from assms pt act obtain b where
    w: "writeUInt32LE (Buffer_alloc 4) (int (increment (sequenceNumber this))) 0 = Inr b"
    by (auto simp: sendSecureData_def Let_def split: sum.splits)
  have inc: "increment (sequenceNumber this) = sequenceNumber this + 1"
    using w by (rule increment_write)
  from w have b: "b = [byte_of (sequenceNumber this + 1), byte_of ((sequenceNumber this + 1) div 256),
      byte_of ((sequenceNumber this + 1) div 65536), byte_of ((sequenceNumber this + 1) div 16777216)]"
    and lt: "sequenceNumber this + 1 < 4294967296"
    using writeUInt32LE_alloc [of "sequenceNumber this + 1" b] by (simp_all add: inc)
  from assms pt act w show t: "this' = this\<lparr> sequenceNumber := sequenceNumber this + 1,
      lastActivity := now env \<rparr>"
    by (auto simp: sendSecureData_def Let_def inc split: option.splits if_splits)
  then show s: "sequenceNumber this' = sequenceNumber this + 1" by simp
  from lt s show "sequenceNumber this' < 4294967296" by simp
  from assms pt act w show "\<exists>header transmit. buildEncapHeader env = Some header \<and>
           send env = Some transmit \<and> transmit p \<and>
           p = header @ data
               @ [byte_of (sequenceNumber this'), byte_of (sequenceNumber this' div 256),
                  byte_of (sequenceNumber this' div 65536),
                  byte_of (sequenceNumber this' div 16777216)]
               @ take 8 (hmac_sha256 env (sessionNonce this)
                   (data @ [byte_of (sequenceNumber this'), byte_of (sequenceNumber this' div 256),
                            byte_of (sequenceNumber this' div 65536),
                            byte_of (sequenceNumber this' div 16777216)]))"
    unfolding s
    by (auto simp: sendSecureData_def Let_def inc b split: option.splits if_splits)
qed

lemma sendSecureData_succeeds:
  assumes "connectionType this = TYPE_PT2PT" "sessionActive this"
    and "sequenceNumber this + 1 < 4294967296"
    and "buildEncapHeader env = Some header" "send env = Some transmit" "\<forall>p. transmit p"
  shows "\<exists>p this'. sendSecureData env this data = (Inr p, this')"
proof -
  have inc: "increment (sequenceNumber this) = sequenceNumber this + 1"
    using assms(3) by (simp add: increment_def)
  have w: "writeUInt32LE (Buffer_alloc 4) (int (increment (sequenceNumber this))) 0
      = Inr [byte_of (sequenceNumber this + 1), byte_of ((sequenceNumber this + 1) div 256),
             byte_of ((sequenceNumber this + 1) div 65536),
             byte_of ((sequenceNumber this + 1) div 16777216)]"
    unfolding inc using assms(3) by (rule writeUInt32LE_alloc_ok)
  show ?thesis
    using assms(1,2,4,5,6)
    by (simp add: sendSecureData_def Let_def strict_equal_PT2PT w)
qed

text \<open>
  With the two methods supplied, \<open>sendSecureData(data)\<close> does what is expected of it.
  It fails NotPointToPoint, leaving the state as it was, unless the connection type is
  point-to-point, and then fails SessionNotActive unless the session is active. When it
  returns, the sequence counter has been incremented by one (so it is strictly greater
  than before), the nonce is unchanged, and the packet has been handed to \<open>send\<close>,
  which accepted it: the header, the data, the four little-endian bytes of the new
  counter and the MAC, which is the first 8 bytes of HMAC-SHA-256 keyed by the session
  nonce over the data followed by those four bytes (8 bytes, the digest having 32). It
  does send when the connection is point-to-point, the session active, the new counter
  fits 32 bits and the transport accepts the packet.
\<close>

lemma sendSecureData_with_methods:
  "(connectionType this \<noteq> TYPE_PT2PT \<longrightarrow>
      sendSecureData env this data = (Inl NotPointToPoint, this)) \<and>
   (connectionType this = TYPE_PT2PT \<and> \<not> sessionActive this \<longrightarrow>
      sendSecureData env this data = (Inl SessionNotActive, this)) \<and>
   (\<forall>p this'. sendSecureData env this data = (Inr p, this') \<longrightarrow>
      connectionType this = TYPE_PT2PT \<and> sessionActive this \<and>
      sequenceNumber this' = sequenceNumber this + 1 \<and>
      sequenceNumber this < sequenceNumber this' \<and>
      sessionNonce this' = sessionNonce this \<and>
      (\<exists>header transmit sequenceBuf mac.
         buildEncapHeader env = Some header \<and>
         send env = Some transmit \<and> transmit p \<and>
         readUInt32LE sequenceBuf 0 = Inr (sequenceNumber this') \<and> length sequenceBuf = 4 \<and>
         mac = take 8 (hmac_sha256 env (sessionNonce this) (data @ sequenceBuf)) \<and>
         (length (hmac_sha256 env (sessionNonce this) (data @ sequenceBuf)) = 32
            \<longrightarrow> length mac = 8) \<and>
         p = header @ data @ sequenceBuf @ mac)) \<and>
   (connectionType this = TYPE_PT2PT \<and> sessionActive this \<and>
    sequenceNumber this + 1 < 4294967296 \<and>
    buildEncapHeader env \<noteq> None \<and> (\<exists>transmit. send env = Some transmit \<and> (\<forall>p. transmit p))
      \<longrightarrow> (\<exists>p this'. sendSecureData env this data = (Inr p, this')))"
proof (intro conjI allI impI)
  assume "connectionType this \<noteq> TYPE_PT2PT"
  then show "sendSecureData env this data = (Inl NotPointToPoint, this)"
    by (simp add: sendSecureData_def strict_equal_PT2PT)
next
  assume "connectionType this = TYPE_PT2PT \<and> \<not> sessionActive this"
  then show "sendSecureData env this data = (Inl SessionNotActive, this)"
    by (simp add: sendSecureData_def strict_equal_PT2PT)
next
  fix p this'
  assume s: "sendSecureData env this data = (Inr p, this')"
  note f = sendSecureData_sent [OF s]
  show "connectionType this = TYPE_PT2PT" by (rule f(1))
  show "sessionActive this" by (rule f(2))
  show "sequenceNumber this' = sequenceNumber this + 1" by (rule f(3))
  show "sequenceNumber this < sequenceNumber this'" using f(3) by simp
  show "sessionNonce this' = sessionNonce this" using f(5) by simp
  let ?sb = "[byte_of (sequenceNumber this'), byte_of (sequenceNumber this' div 256),
              byte_of (sequenceNumber this' div 65536),
              byte_of (sequenceNumber this' div 16777216)]"
  from f(6) obtain header transmit where h: "buildEncapHeader env = Some header"
    and t: "send env = Some transmit" "transmit p"
    and p: "p = header @ data @ ?sb
              @ take 8 (hmac_sha256 env (sessionNonce this) (data @ ?sb))"
    by blast
  have r: "readUInt32LE ?sb 0 = Inr (sequenceNumber this')"
    using f(4) by (rule read_sequence_bytes)
  show "\<exists>header transmit sequenceBuf mac.
         buildEncapHeader env = Some header \<and>
         send env = Some transmit \<and> transmit p \<and>
         readUInt32LE sequenceBuf 0 = Inr (sequenceNumber this') \<and> length sequenceBuf = 4 \<and>
         mac = take 8 (hmac_sha256 env (sessionNonce this) (data @ sequenceBuf)) \<and>
         (length (hmac_sha256 env (sessionNonce this) (data @ sequenceBuf)) = 32
            \<longrightarrow> length mac = 8) \<and>
         p = header @ data @ sequenceBuf @ mac"
    using h t r p
    by - (rule exI [of _ header], rule exI [of _ transmit], rule exI [of _ ?sb],
          rule exI [of _ "take 8 (hmac_sha256 env (sessionNonce this) (data @ ?sb))"], simp)
next
  assume a: "connectionType this = TYPE_PT2PT \<and> sessionActive this \<and>
    sequenceNumber this + 1 < 4294967296 \<and>
    buildEncapHeader env \<noteq> None \<and> (\<exists>transmit. send env = Some transmit \<and> (\<forall>p. transmit p))"
  then obtain header transmit where e: "buildEncapHeader env = Some header"
    "send env = Some transmit" "\<forall>p. transmit p"
    by auto
  from a have "connectionType this = TYPE_PT2PT" "sessionActive this"
    "sequenceNumber this + 1 < 4294967296"
    by simp_all
  then show "\<exists>p this'. sendSecureData env this data = (Inr p, this')"
    using e by (rule sendSecureData_succeeds)
qed


lemma sendSecureData_with_methods_example:
  "sendSecureData
     \<lparr> buildEncapHeader = Some [0xAA], send = Some (\<lambda>p. True), receive = None,
       hmac_sha256 = (\<lambda>k m. replicate 32 0x5A), now = 7 \<rparr>
     \<lparr> sessionNonce = [1], sessionHandle = 0, sessionActive = True, sequenceNumber = 4,
       lastActivity = 0, connectionType = TYPE_PT2PT \<rparr>
     [0x10, 0x20]
   = (Inr [0xAA, 0x10, 0x20, 5, 0, 0, 0, 0x5A, 0x5A, 0x5A, 0x5A, 0x5A, 0x5A, 0x5A, 0x5A],
      \<lparr> sessionNonce = [1], sessionHandle = 0, sessionActive = True, sequenceNumber = 5,
        lastActivity = 7, connectionType = TYPE_PT2PT \<rparr>) \<and>
   sendSecureData
     \<lparr> buildEncapHeader = Some [0xAA], send = Some (\<lambda>p. True), receive = None,
       hmac_sha256 = (\<lambda>k m. replicate 32 0x5A), now = 7 \<rparr>
     \<lparr> sessionNonce = [1], sessionHandle = 0, sessionActive = True, sequenceNumber = 4,
       lastActivity = 0, connectionType = JUndefined \<rparr>
     [0x10, 0x20]
   = (Inl NotPointToPoint,
      \<lparr> sessionNonce = [1], sessionHandle = 0, sessionActive = True, sequenceNumber = 4,
        lastActivity = 0, connectionType = JUndefined \<rparr>) \<and>
   sendSecureData
     \<lparr> buildEncapHeader = Some [0xAA], send = Some (\<lambda>p. True), receive = None,
       hmac_sha256 = (\<lambda>k m. replicate 32 0x5A), now = 7 \<rparr>
     \<lparr> sessionNonce = [1], sessionHandle = 0, sessionActive = False, sequenceNumber = 4,
       lastActivity = 0, connectionType = TYPE_PT2PT \<rparr>
     [0x10, 0x20]
   = (Inl SessionNotActive,
      \<lparr> sessionNonce = [1], sessionHandle = 0, sessionActive = False, sequenceNumber = 4,
        lastActivity = 0, connectionType = TYPE_PT2PT \<rparr>)"
proof -
  let ?env = "\<lparr> buildEncapHeader = Some [0xAA], send = Some (\<lambda>p. True), receive = None,
       hmac_sha256 = (\<lambda>k m. replicate 32 0x5A), now = 7 \<rparr>"
  let ?c = "\<lparr> sessionNonce = [1], sessionHandle = 0, sessionActive = True, sequenceNumber = 4,
       lastActivity = 0, connectionType = TYPE_PT2PT \<rparr>"
  have u: "JUndefined \<noteq> TYPE_PT2PT" by (simp add: TYPE_PT2PT_def)
  have r: "replicate 8 (0x5A::byte) = [0x5A, 0x5A, 0x5A, 0x5A, 0x5A, 0x5A, 0x5A, 0x5A]"
    by (simp add: numeral_eq_Suc)
  have e: "sendSecureData ?env ?c [0x10, 0x20]
      = (Inr [0xAA, 0x10, 0x20, 5, 0, 0, 0, 0x5A, 0x5A, 0x5A, 0x5A, 0x5A, 0x5A, 0x5A, 0x5A],
         ?c\<lparr> sequenceNumber := 5, lastActivity := 7 \<rparr>)"
    by (simp add: sendSecureData_def Let_def strict_equal_PT2PT increment_def
        writeUInt32LE_def Buffer_alloc_def write_at_def byte_of_def r)
  from sendSecureData_with_methods [of "?c\<lparr> connectionType := JUndefined \<rparr>" ?env "[0x10, 0x20]"] u
  have n: "sendSecureData ?env (?c\<lparr> connectionType := JUndefined \<rparr>) [0x10, 0x20]
      = (Inl NotPointToPoint, ?c\<lparr> connectionType := JUndefined \<rparr>)"
    by simp
  from sendSecureData_with_methods [of "?c\<lparr> sessionActive := False \<rparr>" ?env "[0x10, 0x20]"]
  have a: "sendSecureData ?env (?c\<lparr> sessionActive := False \<rparr>) [0x10, 0x20]
      = (Inl SessionNotActive, ?c\<lparr> sessionActive := False \<rparr>)"
    by simp
  from e n a show ?thesis by simp
qed

text \<open>
  The class as it is written defines neither \<open>buildEncapHeader\<close> nor \<open>send\<close>, and
  it extends no class that does. \<open>send\<close> belongs to the transport; where
  \<open>buildEncapHeader\<close> (or \<open>send\<close>) is missing, a call that passes both checks ends in
  a TypeError.
\<close>

lemma sendSecureData_without_methods:
  assumes "connectionType this = TYPE_PT2PT" "sessionActive this"
    and "sequenceNumber this + 1 < 4294967296"
    and "buildEncapHeader env = None \<or> send env = None"
  shows "fst (sendSecureData env this data) = Inl TypeError"
proof -
  have inc: "increment (sequenceNumber this) = sequenceNumber this + 1"
    using assms(3) by (simp add: increment_def)
  have w: "writeUInt32LE (Buffer_alloc 4) (int (increment (sequenceNumber this))) 0
      = Inr [byte_of (sequenceNumber this + 1), byte_of ((sequenceNumber this + 1) div 256),
             byte_of ((sequenceNumber this + 1) div 65536),
             byte_of ((sequenceNumber this + 1) div 16777216)]"
    unfolding inc using assms(3) by (rule writeUInt32LE_alloc_ok)
  show ?thesis
    using assms(1,2,4)
    by (auto simp: sendSecureData_def Let_def strict_equal_PT2PT w split: option.splits)
qed

text \<open>
  A client with a transport, brought to an active session by the reply below and given
  the connection type point-to-point by its caller, is in a reachable state.
\<close>

lemma established_point_to_point:
  "reachable \<lparr> sessionNonce = replicate 16 1, sessionHandle = 0, sessionActive = True,
       sequenceNumber = 0, lastActivity = 0, connectionType = TYPE_PT2PT \<rparr>"
proof -
  let ?reply = "[0, 0, 0, 0, 0, 0, 0, 0, 0, 0, 0, 0, 0, 0, 0, 0, 0, 0, 0, 0, 0, 0, 0, 0,
          1, 2, 3, 4, 0, 0, 0, 0, 0, 0, 0, 0, 9, 9, 9, 9, 9, 9, 9, 9] :: buffer"
  let ?env = "\<lparr> buildEncapHeader = None, send = Some (\<lambda>p. True),
       receive = Some (Inr ?reply), hmac_sha256 = (\<lambda>k m. replicate 32 9), now = 7 \<rparr>"
  let ?c = "new_secure_client (replicate 16 1) 0"
  let ?c' = "\<lparr> sessionNonce = replicate 16 1, sessionHandle = 0, sessionActive = True,
        sequenceNumber = 0, lastActivity = 0, connectionType = JUndefined \<rparr>"
  have r9: "replicate 8 (9::byte) = [9, 9, 9, 9, 9, 9, 9, 9]"
    by (simp add: numeral_eq_Suc)
  have h: "readUInt32LE ?reply 4 = Inr 0"
    by (simp add: readUInt32LE_def)
  have p: "slice_int ?reply 24 (- 12) = [1, 2, 3, 4, 0, 0, 0, 0]"
    by (simp add: slice_int_def clamp_index_def slice_def)
  have m: "slice_int ?reply (- 8) 44 = [9, 9, 9, 9, 9, 9, 9, 9]"
    by (simp add: slice_int_def clamp_index_def slice_def)
  have rv: "receiveWithValidation ?env ?c = Inr [1, 2, 3, 4, 0, 0, 0, 0]"
    by (simp add: receiveWithValidation_def Let_def p m h calculateMac_def r9
        new_secure_client_def)
  have v: "validateSessionResponse [1, 2, 3, 4, 0, 0, 0, 0] = Inr ()"
    by (simp add: validateSessionResponse_def readUInt32LE_def)
  have e: "establishSecureSession ?env ?c = (Inr (), ?c')"
    unfolding establishSecureSession_def Let_def rv
    by (simp add: v readUInt32LE_def slice_def new_secure_client_def)
  have "reachable ?c" by (rule reachable.constructed)
  then have "reachable (snd (establishSecureSession ?env ?c))" by (rule reachable.established)
  then have "reachable ?c'" by (simp only: e snd_conv)
  then have "reachable (?c'\<lparr> connectionType := TYPE_PT2PT \<rparr>)" by (rule reachable.assigned)
  then show ?thesis by simp
qed

text \<open>
  C6. The claim: with the connection point-to-point and the session active,
  \<open>sendSecureData(data)\<close> increments the counter, computes the MAC and transmits the
  header, the data, the sequence bytes and the MAC. The class calls
  \<open>this.buildEncapHeader()\<close> to build that packet and defines no such method: for the
  client above (point-to-point, active, counter 0, a transport that accepts every
  packet) the call with the data \<open>[0x10, 0x20]\<close> increments the counter to 1 and then
  throws a TypeError; \<open>send\<close> is never reached and nothing is transmitted.
\<close>

theorem sendSecureData_TypeError:
  "sendSecureData
     \<lparr> buildEncapHeader = None, send = Some (\<lambda>p. True), receive = None,
       hmac_sha256 = (\<lambda>k m. replicate 32 9), now = 7 \<rparr>
     \<lparr> sessionNonce = replicate 16 1, sessionHandle = 0, sessionActive = True,
       sequenceNumber = 0, lastActivity = 0, connectionType = TYPE_PT2PT \<rparr>
     [0x10, 0x20]
   = (Inl TypeError,
      \<lparr> sessionNonce = replicate 16 1, sessionHandle = 0, sessionActive = True,
        sequenceNumber = 1, lastActivity = 0, connectionType = TYPE_PT2PT \<rparr>)"
  by (simp add: sendSecureData_def Let_def strict_equal_PT2PT increment_def
      writeUInt32LE_def Buffer_alloc_def write_at_def)

subsection \<open>Session establishment\<close>

lemma validateSessionResponse_Inr:
  "validateSessionResponse resp = Inr u \<Longrightarrow> 8 \<le> length resp \<and> readUInt32LE resp 4 = Inr 0"
  by (auto simp: validateSessionResponse_def split: if_splits sum.splits)

lemma readUInt32LE_slice_4_8:
  "8 \<le> length resp \<Longrightarrow> readUInt32LE (slice resp 4 8) 0 = readUInt32LE resp 4"
  by (simp add: readUInt32LE_def slice_def)

lemma establishSecureSession_Inr:
  assumes "establishSecureSession env this = (Inr u, this')"
  shows "this' = this\<lparr> sessionHandle := 0, sequenceNumber := 0, sessionActive := True \<rparr>"
    and "\<not> sessionActive this"
proof -
  from assms show na: "\<not> sessionActive this"
    by (auto simp: establishSecureSession_def split: if_splits)
  from assms na obtain resp h where v: "validateSessionResponse resp = Inr ()"
    and r: "readUInt32LE (slice resp 4 8) 0 = Inr h"
    and t: "this' = this\<lparr> sessionHandle := h, sequenceNumber := 0, sessionActive := True \<rparr>"
    by (auto simp: establishSecureSession_def Let_def split: option.splits if_splits sum.splits)
  from validateSessionResponse_Inr [OF v] r have "h = 0"
    by (simp add: readUInt32LE_slice_4_8)
  with t show "this' = this\<lparr> sessionHandle := 0, sequenceNumber := 0, sessionActive := True \<rparr>"
    by simp
qed

lemma establishSecureSession_handle:
  "sessionHandle this = 0 \<Longrightarrow> sessionHandle (snd (establishSecureSession env this)) = 0"
proof (cases "establishSecureSession env this")
  case (Pair r this')
  show "sessionHandle this = 0 \<Longrightarrow> ?thesis"
  proof (cases r)
    case (Inl e)
    with Pair have "this' = this"
      by (auto simp: establishSecureSession_def Let_def
          split: option.splits if_splits sum.splits)
    then show "sessionHandle this = 0 \<Longrightarrow> ?thesis" using Pair by simp
  next
    case (Inr u)
    with Pair establishSecureSession_Inr(1) [of env this u this'] show ?thesis by simp
  qed
qed

lemma sendSecureData_handle:
  "sessionHandle (snd (sendSecureData env this data)) = sessionHandle this"
  by (simp add: sendSecureData_def Let_def split: option.splits sum.splits)

lemma reachable_handle: "reachable this \<Longrightarrow> sessionHandle this = 0"
proof (induction rule: reachable.induct)
  case (constructed nonce t)
  show ?case by (simp add: new_secure_client_def)
next
  case (assigned this v)
  then show ?case by simp
next
  case (established this env)
  then show ?case by (simp add: establishSecureSession_handle)
next
  case (sent this env data)
  then show ?case by (simp add: sendSecureData_handle)
next
  case (shut_down this env)
  then show ?case by (simp add: gracefulShutdown_def Let_def)
qed

lemma receiveWithValidation_handle:
  "receiveWithValidation env this = Inr payload \<Longrightarrow>
   \<exists>resp. receive env = Some (Inr resp) \<and> readUInt32LE resp 4 = Inr (sessionHandle this)"
  by (auto simp: receiveWithValidation_def Let_def split: option.splits sum.splits if_splits)


text \<open>
  C10. A reply accepted by \<open>establishSecureSession\<close> gives the session handle 0:
  \<open>validateSessionResponse\<close> requires the 32-bit word at offset 4 of the validated
  payload to be zero, and the handle is read from the same four bytes. The session is
  then active with the counter at 0. The handle is 0 in every state a client can reach,
  so \<open>receiveWithValidation\<close> accepts only replies whose bytes 4 to 7 hold the
  handle 0.
\<close>

theorem establishSecureSession_handle_zero:
  "(\<forall>this'. establishSecureSession env this = (Inr (), this') \<longrightarrow>
      sessionHandle this' = 0 \<and> sessionActive this' \<and> sequenceNumber this' = 0) \<and>
   (reachable this \<longrightarrow>
      sessionHandle this = 0 \<and>
      (\<forall>payload. receiveWithValidation env this = Inr payload \<longrightarrow>
         (\<exists>resp. receive env = Some (Inr resp) \<and> readUInt32LE resp 4 = Inr 0)))"
proof (intro conjI allI impI)
  fix this'
  assume e: "establishSecureSession env this = (Inr (), this')"
  note t = establishSecureSession_Inr(1) [OF e]
  from t show "sessionHandle this' = 0" by simp
  from t show "sessionActive this'" by simp
  from t show "sequenceNumber this' = 0" by simp
next
  assume "reachable this"
  then show "sessionHandle this = 0" by (rule reachable_handle)
next
  fix payload
  assume "reachable this" and "receiveWithValidation env this = Inr payload"
  then show "\<exists>resp. receive env = Some (Inr resp) \<and> readUInt32LE resp 4 = Inr 0"
    using receiveWithValidation_handle [of env this payload] reachable_handle [of this]
    by simp
qed

theorem establishSecureSession_handle_zero_witness:
  "establishSecureSession
     \<lparr> buildEncapHeader = None, send = Some (\<lambda>p. True),
       receive = Some (Inr [0, 0, 0, 0, 0, 0, 0, 0, 0, 0, 0, 0, 0, 0, 0, 0, 0, 0, 0, 0, 0, 0, 0, 0,
          1, 2, 3, 4, 0, 0, 0, 0, 0, 0, 0, 0, 9, 9, 9, 9, 9, 9, 9, 9]),
       hmac_sha256 = (\<lambda>k m. replicate 32 9), now = 7 \<rparr>
     (new_secure_client (replicate 16 1) 0)
   = (Inr (),
      \<lparr> sessionNonce = replicate 16 1, sessionHandle = 0, sessionActive = True,
        sequenceNumber = 0, lastActivity = 0, connectionType = JUndefined \<rparr>) \<and>
   reachable \<lparr> sessionNonce = replicate 16 1, sessionHandle = 0, sessionActive = True,
        sequenceNumber = 0, lastActivity = 0, connectionType = JUndefined \<rparr> \<and>
   receiveWithValidation
     \<lparr> buildEncapHeader = None, send = Some (\<lambda>p. True),
       receive = Some (Inr [0, 0, 0, 0, 0, 0, 0, 0, 0, 0, 0, 0, 0, 0, 0, 0, 0, 0, 0, 0, 0, 0, 0, 0,
          1, 2, 3, 4, 0, 0, 0, 0, 0, 0, 0, 0, 9, 9, 9, 9, 9, 9, 9, 9]),
       hmac_sha256 = (\<lambda>k m. replicate 32 9), now = 7 \<rparr>
     \<lparr> sessionNonce = replicate 16 1, sessionHandle = 0, sessionActive = True,
        sequenceNumber = 0, lastActivity = 0, connectionType = JUndefined \<rparr>
   = Inr [1, 2, 3, 4, 0, 0, 0, 0] \<and>
   readUInt32LE [0, 0, 0, 0, 0, 0, 0, 0, 0, 0, 0, 0, 0, 0, 0, 0, 0, 0, 0, 0, 0, 0, 0, 0,
          1, 2, 3, 4, 0, 0, 0, 0, 0, 0, 0, 0, 9, 9, 9, 9, 9, 9, 9, 9] 4 = Inr 0"
proof -
  let ?reply = "[0, 0, 0, 0, 0, 0, 0, 0, 0, 0, 0, 0, 0, 0, 0, 0, 0, 0, 0, 0, 0, 0, 0, 0,
          1, 2, 3, 4, 0, 0, 0, 0, 0, 0, 0, 0, 9, 9, 9, 9, 9, 9, 9, 9] :: buffer"
  let ?env = "\<lparr> buildEncapHeader = None, send = Some (\<lambda>p. True),
       receive = Some (Inr ?reply), hmac_sha256 = (\<lambda>k m. replicate 32 9), now = 7 \<rparr>"
  let ?c = "new_secure_client (replicate 16 1) 0"
  let ?c' = "\<lparr> sessionNonce = replicate 16 1, sessionHandle = 0, sessionActive = True,
        sequenceNumber = 0, lastActivity = 0, connectionType = JUndefined \<rparr>"
  have r9: "replicate 8 (9::byte) = [9, 9, 9, 9, 9, 9, 9, 9]"
    by (simp add: numeral_eq_Suc)
  have h: "readUInt32LE ?reply 4 = Inr 0"
    by (simp add: readUInt32LE_def)
  have p: "slice_int ?reply 24 (- 12) = [1, 2, 3, 4, 0, 0, 0, 0]"
    by (simp add: slice_int_def clamp_index_def slice_def)
  have m: "slice_int ?reply (- 8) 44 = [9, 9, 9, 9, 9, 9, 9, 9]"
    by (simp add: slice_int_def clamp_index_def slice_def)
  have rv: "\<And>c. sessionHandle c = 0 \<Longrightarrow>
      receiveWithValidation ?env c = Inr [1, 2, 3, 4, 0, 0, 0, 0]"
    by (simp add: receiveWithValidation_def Let_def p m h calculateMac_def r9)
  have v: "validateSessionResponse [1, 2, 3, 4, 0, 0, 0, 0] = Inr ()"
    by (simp add: validateSessionResponse_def readUInt32LE_def)
  have e: "establishSecureSession ?env ?c = (Inr (), ?c')"
    by (simp add: establishSecureSession_def Let_def rv v readUInt32LE_def slice_def
        new_secure_client_def)
  have "reachable ?c" by (rule reachable.constructed)
  then have "reachable (snd (establishSecureSession ?env ?c))" by (rule reachable.established)
  then have re: "reachable ?c'" by (simp only: e snd_conv)
  from establishSecureSession_handle_zero [of ?env ?c'] re
  have "\<forall>payload. receiveWithValidation ?env ?c' = Inr payload \<longrightarrow>
         (\<exists>resp. receive ?env = Some (Inr resp) \<and> readUInt32LE resp 4 = Inr 0)"
    by blast
  then have "readUInt32LE ?reply 4 = Inr 0"
    using rv [of ?c'] by simp
  with e re rv [of ?c'] show ?thesis by simp
qed

end
